theory Spec2Isabelle
  imports Complex_Main "HOL-Library.Log_Nat" "HOL-Library.Word"
begin

section \<open>JavaScript numbers\<close>

text \<open>
  Every amount in the scripts is a JavaScript Number, an IEEE 754 binary64 value.
  A finite Number is modelled by the rational it denotes, the other three values by
  constructors of their own. The two zeros are not distinguished (no operation used by
  the scripts tells them apart).
\<close>

datatype number = Fin rat | PInf | NInf | NaN

definition pow2 :: "int \<Rightarrow> rat" where
  "pow2 k = (if 0 \<le> k then 2 ^ nat k else 1 / 2 ^ nat (- k))"

text \<open>The binary exponent \<open>\<lfloor>log\<^sub>2 x\<rfloor>\<close> of a positive rational.\<close>

definition ilog2 :: "rat \<Rightarrow> int" where
  "ilog2 x = (if 1 \<le> x then bitlen \<lfloor>x\<rfloor> - 1 else - bitlen (\<lceil>1 / x\<rceil> - 1))"

text \<open>Rounding to the nearest integer, ties to the even one.\<close>

definition rne :: "rat \<Rightarrow> int" where
  "rne x = (let f = \<lfloor>x\<rfloor>; d = x - of_int f
            in if d < 1 / 2 then f
               else if 1 / 2 < d then f + 1
               else if even f then f else f + 1)"

text \<open>
  The binary64 value nearest to a positive rational: 53 significant bits, the exponent
  of the last bit not below \<open>-1074\<close> (subnormal numbers).
\<close>

definition fl_pos :: "rat \<Rightarrow> rat" where
  "fl_pos x = (let e = max (ilog2 x - 52) (- 1074) in of_int (rne (x / pow2 e)) * pow2 e)"

text \<open>The Number nearest to a rational; a result of \<open>2\<^sup>1\<^sup>0\<^sup>2\<^sup>4\<close> or more overflows.\<close>

definition fl :: "rat \<Rightarrow> number" where
  "fl x = (if x = 0 then Fin 0
           else let r = fl_pos \<bar>x\<bar>
                in if pow2 1024 \<le> r then (if 0 < x then PInf else NInf)
                   else Fin (if 0 < x then r else - r))"

text \<open>The operator \<^verbatim>\<open>*\<close>: the exact product, rounded once.\<close>

fun js_mul :: "number \<Rightarrow> number \<Rightarrow> number" where
  "js_mul (Fin a) (Fin b) = fl (a * b)"
| "js_mul NaN y = NaN"
| "js_mul x NaN = NaN"
| "js_mul (Fin a) PInf = (if a = 0 then NaN else if 0 < a then PInf else NInf)"
| "js_mul (Fin a) NInf = (if a = 0 then NaN else if 0 < a then NInf else PInf)"
| "js_mul PInf (Fin b) = (if b = 0 then NaN else if 0 < b then PInf else NInf)"
| "js_mul NInf (Fin b) = (if b = 0 then NaN else if 0 < b then NInf else PInf)"
| "js_mul PInf PInf = PInf"
| "js_mul PInf NInf = NInf"
| "js_mul NInf PInf = NInf"
| "js_mul NInf NInf = PInf"

text \<open>The operator \<^verbatim>\<open>/\<close>. A zero divisor is taken as \<open>+0\<close>.\<close>

fun js_div :: "number \<Rightarrow> number \<Rightarrow> number" where
  "js_div (Fin a) (Fin b) =
     (if b = 0 then (if a = 0 then NaN else if 0 < a then PInf else NInf)
      else fl (a / b))"
| "js_div NaN y = NaN"
| "js_div x NaN = NaN"
| "js_div (Fin a) PInf = Fin 0"
| "js_div (Fin a) NInf = Fin 0"
| "js_div PInf (Fin b) = (if 0 \<le> b then PInf else NInf)"
| "js_div NInf (Fin b) = (if 0 \<le> b then NInf else PInf)"
| "js_div PInf PInf = NaN"
| "js_div PInf NInf = NaN"
| "js_div NInf PInf = NaN"
| "js_div NInf NInf = NaN"

text \<open>The operator \<^verbatim>\<open><\<close>: false as soon as one side is NaN.\<close>

fun js_lt :: "number \<Rightarrow> number \<Rightarrow> bool" where
  "js_lt (Fin a) (Fin b) = (a < b)"
| "js_lt NaN y = False"
| "js_lt x NaN = False"
| "js_lt NInf NInf = False"
| "js_lt NInf y = True"
| "js_lt x NInf = False"
| "js_lt PInf y = False"
| "js_lt (Fin a) PInf = True"

text \<open>\<^verbatim>\<open>Math.round\<close>: the nearest integer, ties upwards.\<close>

fun Math_round :: "number \<Rightarrow> number" where
  "Math_round (Fin x) = Fin (of_int \<lfloor>x + 1 / 2\<rfloor>)"
| "Math_round x = x"

section \<open>Strings, bytes and hexadecimal\<close>

text \<open>
  A string is a list of code units below 256. \<open>digit_val\<close> is the value of a digit
  character in any radix up to 36, as \<^verbatim>\<open>parseInt\<close> reads it.
\<close>

type_synonym byte = "8 word"

definition digit_val :: "char \<Rightarrow> nat option" where
  "digit_val c = (let n = (of_char c :: nat)
                  in if 48 \<le> n \<and> n \<le> 57 then Some (n - 48)
                     else if 97 \<le> n \<and> n \<le> 122 then Some (n - 87)
                     else if 65 \<le> n \<and> n \<le> 90 then Some (n - 55)
                     else None)"

definition is_digit :: "nat \<Rightarrow> char \<Rightarrow> bool" where
  "is_digit radix c = (case digit_val c of None \<Rightarrow> False | Some v \<Rightarrow> v < radix)"

text \<open>White space and line terminators, which \<^verbatim>\<open>parseInt\<close> skips at the start.\<close>

definition is_line_terminator :: "char \<Rightarrow> bool" where
  "is_line_terminator c = ((of_char c :: nat) = 10 \<or> (of_char c :: nat) = 13)"

definition is_white_space :: "char \<Rightarrow> bool" where
  "is_white_space c = (let n = (of_char c :: nat)
                       in n = 9 \<or> n = 11 \<or> n = 12 \<or> n = 32 \<or> n = 160 \<or> is_line_terminator c)"

text \<open>The value of a run of digits, most significant first.\<close>

fun digits_value :: "nat \<Rightarrow> nat \<Rightarrow> string \<Rightarrow> nat" where
  "digits_value radix acc [] = acc"
| "digits_value radix acc (c # cs) =
     (case digit_val c of
        None \<Rightarrow> acc
      | Some v \<Rightarrow> digits_value radix (acc * radix + v) cs)"

definition strip_0x :: "string \<Rightarrow> string" where
  "strip_0x s = (case s of
                   a # b # rest \<Rightarrow>
                     (if a = CHR ''0'' \<and> (b = CHR ''x'' \<or> b = CHR ''X'') then rest else s)
                 | _ \<Rightarrow> s)"

text \<open>
  \<^verbatim>\<open>parseInt(s, radix)\<close> for radix 10 or 16: skip leading white space, read a sign,
  for radix 16 skip a \<^verbatim>\<open>0x\<close> prefix, read the longest run of digits; NaN when the run
  is empty, else the Number nearest to the signed value.
\<close>

definition parseInt :: "string \<Rightarrow> nat \<Rightarrow> number" where
  "parseInt s radix =
     (let t = dropWhile is_white_space s;
          neg = (case t of [] \<Rightarrow> False | c # _ \<Rightarrow> c = CHR ''-'');
          u = (case t of [] \<Rightarrow> []
               | c # cs \<Rightarrow> if c = CHR ''-'' \<or> c = CHR ''+'' then cs else t);
          w = (if radix = 16 then strip_0x u else u);
          ds = takeWhile (is_digit radix) w
      in if ds = [] then NaN
         else let v = (of_nat (digits_value radix 0 ds) :: rat)
              in fl (if neg then - v else v))"

text \<open>Storing a Number into a \<^verbatim>\<open>Uint8Array\<close>: truncate, then reduce modulo 256.\<close>

fun ToUint8 :: "number \<Rightarrow> byte" where
  "ToUint8 (Fin x) = word_of_int (if 0 \<le> x then \<lfloor>x\<rfloor> else \<lceil>x\<rceil>)"
| "ToUint8 x = 0"

text \<open>
  \<^verbatim>\<open>s.match(/.{1,2}/g)\<close>: the string cut from the left into pieces of two
  characters, a piece ending early before a line terminator, which no piece contains.
  \<open>None\<close> is the \<^verbatim>\<open>null\<close> returned when nothing matches.
\<close>

fun match_pairs :: "string \<Rightarrow> string list" where
  "match_pairs [] = []"
| "match_pairs [c] = (if is_line_terminator c then [] else [[c]])"
| "match_pairs (c # d # cs) =
     (if is_line_terminator c then match_pairs (d # cs)
      else if is_line_terminator d then [c] # match_pairs cs
      else [c, d] # match_pairs cs)"

definition match_1_2 :: "string \<Rightarrow> string list option" where
  "match_1_2 s = (case match_pairs s of [] \<Rightarrow> None | p # ps \<Rightarrow> Some (p # ps))"

text \<open>
  \<^verbatim>\<open>Buffer.from(s, 'hex')\<close>: two hexadecimal digits give one byte; decoding stops at
  the first pair that is not two hexadecimal digits, and a last single character is
  dropped.
\<close>

fun Buffer_from_hex :: "string \<Rightarrow> byte list" where
  "Buffer_from_hex (a # b # cs) =
     (if is_digit 16 a \<and> is_digit 16 b
      then of_nat (digits_value 16 0 [a, b]) # Buffer_from_hex cs
      else [])"
| "Buffer_from_hex cs = []"

text \<open>\<^verbatim>\<open>buf.toString('hex')\<close>: two lower-case digits for each byte.\<close>

definition hex_digit :: "nat \<Rightarrow> char" where
  "hex_digit v = char_of (if v < 10 then 48 + v else 87 + v)"

definition toString_hex :: "byte list \<Rightarrow> string" where
  "toString_hex bs = concat (map (\<lambda>b. [hex_digit (unat b div 16), hex_digit (unat b mod 16)]) bs)"

section \<open>The SDK and the network\<close>

text \<open>
  The scripts call the chain's SDK and, through it, an RPC node. Neither is part of the
  repository: each call is a field of the record \<open>sdk\<close>, which answers it with a value
  or with the error it throws. The record also holds what the language leaves to the
  JavaScript engine. An address is the base-58 string it prints as.
\<close>

type_synonym pubkey = string

record keypair =
  publicKey :: pubkey
  secretKey :: "byte list"

datatype js_error =
  ReferenceError string | TypeError string | RangeError string | SdkError string

fun message :: "js_error \<Rightarrow> string" where
  "message (ReferenceError m) = m"
| "message (TypeError m) = m"
| "message (RangeError m) = m"
| "message (SdkError m) = m"

record token_metadata =
  name :: string
  symbol :: string
  uri :: string
  sellerFeeBasisPoints :: nat

record token_config =
  decimals :: nat
  initialSupply :: number

text \<open>
  The module \<^verbatim>\<open>config\<close> is required by both scripts and is not among the sources: its
  three values are parameters.
\<close>

record config =
  SolanaNetwork :: string
  TOKEN_METADATA :: token_metadata
  TOKEN_CONFIG :: token_config

text \<open>
  Instructions, with the arguments in the order the scripts pass them:
  \<^item> \<open>CreateAccount fromPubkey newAccountPubkey space lamports programId\<close>
  \<^item> \<open>InitializeMint mint decimals mintAuthority freezeAuthority programId\<close>
  \<^item> \<open>CreateAssociatedTokenAccount payer associatedToken owner mint programId associatedProgramId\<close>
  \<^item> \<open>MintTo mint destination authority amount multiSigners programId\<close>
  \<^item> \<open>CreateMetadataAccountV3 metadata mint mintAuthority payer updateAuthority data isMutable\<close>
  \<^item> \<open>Transfer fromPubkey toPubkey lamports\<close>
  \<^item> \<open>TransferChecked source mint destination owner amount decimals multiSigners programId\<close>
\<close>

datatype instruction =
    SetComputeUnitLimit nat
  | SetComputeUnitPrice nat
  | CreateAccount pubkey pubkey nat number pubkey
  | InitializeMint pubkey nat pubkey pubkey pubkey
  | CreateAssociatedTokenAccount pubkey pubkey pubkey pubkey pubkey pubkey
  | MintTo pubkey pubkey pubkey number "keypair list" pubkey
  | CreateMetadataAccountV3 pubkey pubkey pubkey pubkey pubkey token_metadata bool
  | Transfer pubkey pubkey number
  | TransferChecked pubkey pubkey pubkey pubkey number nat "keypair list" pubkey

record transaction =
  instructions :: "instruction list"
  recentBlockhash :: "string option"
  feePayer :: "pubkey option"

definition new_Transaction :: transaction where
  "new_Transaction = \<lparr>instructions = [], recentBlockhash = None, feePayer = None\<rparr>"

definition add :: "transaction \<Rightarrow> instruction \<Rightarrow> transaction" where
  "add tx i = tx\<lparr>instructions := instructions tx @ [i]\<rparr>"

record mint_info =
  mint_decimals :: nat

type_synonym account_info = "byte list"

text \<open>
  \<open>getAccountInfo\<close> answers \<open>None\<close> for an account that does not exist (the script's
  \<^verbatim>\<open>null\<close>). \<open>getTokenAccountBalance\<close> answers the field \<^verbatim>\<open>value.amount\<close>, a string.
  \<open>rejects\<close> is the error an instruction builder throws for its arguments, if any.
  \<open>findProgramAddressSync\<close> takes the seeds, here strings, and the program.
\<close>

record sdk =
  newConnection :: "string \<Rightarrow> js_error option"
  fromSecretKey :: "byte list \<Rightarrow> js_error + keypair"
  generate :: keypair
  newPublicKey :: "string \<Rightarrow> js_error + pubkey"
  getBalance :: "pubkey \<Rightarrow> js_error + number"
  getAssociatedTokenAddress :: "pubkey \<Rightarrow> pubkey \<Rightarrow> js_error + pubkey"
  findProgramAddressSync :: "string list \<Rightarrow> pubkey \<Rightarrow> js_error + pubkey"
  getMinimumBalanceForRentExemptMint :: "js_error + number"
  getAccountInfo :: "pubkey \<Rightarrow> js_error + account_info option"
  getMint :: "pubkey \<Rightarrow> js_error + mint_info"
  getTokenAccountBalance :: "pubkey \<Rightarrow> js_error + string"
  getLatestBlockhash :: "js_error + string"
  rejects :: "instruction \<Rightarrow> js_error option"
  sendAndConfirmTransaction :: "transaction \<Rightarrow> keypair list \<Rightarrow> js_error + string"
  engine_pow10 :: "nat \<Rightarrow> number"

text \<open>
  \<^verbatim>\<open>Math.pow(10, d)\<close> for a natural \<open>d\<close>. Up to \<open>d = 22\<close> the power of ten is itself a
  binary64 value (\<open>pow10_binary64\<close> below) and that is what the engine returns. Beyond, the
  language leaves the accuracy of \<^verbatim>\<open>Math.pow\<close> to the engine, whose result need not be
  the nearest Number: it is the field \<open>engine_pow10\<close>.
\<close>

definition Math_pow10 :: "sdk \<Rightarrow> nat \<Rightarrow> number" where
  "Math_pow10 s d = (if d \<le> 22 then Fin (10 ^ d) else engine_pow10 s d)"

definition TOKEN_PROGRAM_ID :: pubkey where
  "TOKEN_PROGRAM_ID = ''TokenkegQfeZyiNwAJbNbGKPFXCWuBvf9Ss623VQ5DA''"

definition ASSOCIATED_TOKEN_PROGRAM_ID :: pubkey where
  "ASSOCIATED_TOKEN_PROGRAM_ID = ''ATokenGPvbdGVxr1b2hvZbsiqW5xWH25efTNsLJA8knL''"

definition TOKEN_METADATA_PROGRAM_ID :: pubkey where
  "TOKEN_METADATA_PROGRAM_ID = ''metaqbxxUerdq28cj1RbAWkYQm3ybzjb6a8bt518x1s''"

definition MINT_SIZE :: nat where
  "MINT_SIZE = 82"

text \<open>
  What a run leaves behind: its result, the transaction object as it stands when the
  function exits, and the calls of \<^verbatim>\<open>sendAndConfirmTransaction\<close> it made.
\<close>

record 'r outcome =
  result :: 'r
  built :: transaction
  submitted :: "(transaction \<times> keypair list) list"

definition throws :: "'e \<Rightarrow> transaction \<Rightarrow> ('e + 'a) outcome" where
  "throws e tx = \<lparr>result = Inl e, built = tx, submitted = []\<rparr>"

text \<open>An instruction builder returns the instruction it is asked for unless it throws.\<close>

definition build :: "sdk \<Rightarrow> instruction \<Rightarrow> js_error + instruction" where
  "build s i = (case rejects s i of Some e \<Rightarrow> Inl e | None \<Rightarrow> Inr i)"

section \<open>Token creation\<close>

text \<open>
  The identifiers bound at the top level of the token script: the names it destructures
  from the two SDK packages, the names it binds to whole modules, and its own constants
  and functions.
\<close>

definition module_scope :: "string list" where
  "module_scope =
     [''Connection'', ''Keypair'', ''Transaction'', ''SystemProgram'', ''LAMPORTS_PER_SOL'',
      ''sendAndConfirmTransaction'', ''ComputeBudgetProgram'', ''PublicKey'',
      ''TOKEN_PROGRAM_ID'', ''ASSOCIATED_TOKEN_PROGRAM_ID'', ''createInitializeMintInstruction'',
      ''createAssociatedTokenAccountInstruction'', ''createMintToInstruction'',
      ''getAssociatedTokenAddress'', ''MINT_SIZE'', ''getMinimumBalanceForRentExemptMint'',
      ''mplTokenMetadata'', ''fs'', ''config'', ''TOKEN_METADATA_PROGRAM_ID'', ''rpcEndpoint'',
      ''TOKEN_METADATA'', ''TOKEN_CONFIG'', ''createTokenWithMetadata'', ''main'']"

text \<open>Evaluating an identifier that nothing binds throws a \<^verbatim>\<open>ReferenceError\<close>.\<close>

definition resolve :: "string \<Rightarrow> js_error + unit" where
  "resolve ident = (if ident \<in> set module_scope then Inr ()
                    else Inl (ReferenceError (ident @ '' is not defined'')))"

text \<open>
  A call of an instruction builder: the identifier at the head of the call is resolved,
  then the builder runs.
\<close>

definition call :: "sdk \<Rightarrow> string \<Rightarrow> instruction \<Rightarrow> js_error + instruction" where
  "call s ident i = (case resolve ident of Inl e \<Rightarrow> Inl e | Inr u \<Rightarrow> build s i)"

text \<open>
  The private key is a hexadecimal string or an array of numbers. For a string,
  \<^verbatim>\<open>privateKey.match(/.{1,2}/g).map(byte => parseInt(byte, 16))\<close> is stored into a
  \<^verbatim>\<open>Uint8Array\<close>; calling \<^verbatim>\<open>map\<close> on \<^verbatim>\<open>null\<close> is a \<^verbatim>\<open>TypeError\<close>.
\<close>

datatype private_key = KeyString string | KeyArray "number list"

definition secretKey_of :: "private_key \<Rightarrow> js_error + byte list" where
  "secretKey_of privateKey =
     (case privateKey of
        KeyString str \<Rightarrow>
          (case match_1_2 str of
             None \<Rightarrow> Inl (TypeError ''Cannot read properties of null (reading 'map')'')
           | Some pieces \<Rightarrow> Inr (map (\<lambda>byte. ToUint8 (parseInt byte 16)) pieces))
      | KeyArray xs \<Rightarrow> Inr (map ToUint8 xs))"

text \<open>The amount minted: \<^verbatim>\<open>TOKEN_CONFIG.initialSupply * Math.pow(10, TOKEN_CONFIG.decimals)\<close>.\<close>

definition mintAmount :: "sdk \<Rightarrow> token_config \<Rightarrow> number" where
  "mintAmount s c = js_mul (initialSupply c) (Math_pow10 s (decimals c))"

text \<open>
  The value returned on success:
  \<open>Success signature mint metadata tokenAccount explorerUrl transactionUrl\<close>, and the
  value returned by the \<^verbatim>\<open>catch\<close> block: \<open>Failure\<close> with the error's message.
\<close>

datatype token_result = Success string pubkey pubkey pubkey string string | Failure string

text \<open>
  The seven statements \<^verbatim>\<open>transaction.add(...)\<close> of the script, in its order: the
  identifier at the head of each builder call, and the instruction the builder is
  asked for.
\<close>

definition token_calls ::
  "sdk \<Rightarrow> config \<Rightarrow> keypair \<Rightarrow> pubkey \<Rightarrow> pubkey \<Rightarrow> pubkey \<Rightarrow> number \<Rightarrow>
     (string \<times> instruction) list" where
  "token_calls s cfg wallet mint associatedTokenAccount metadataAddress rentExemptBalance =
     [(''ComputeBudgetProgram'', SetComputeUnitLimit 250000),
      (''ComputeBudgetProgram'', SetComputeUnitPrice 200000),
      (''SystemProgram'',
         CreateAccount (publicKey wallet) mint MINT_SIZE rentExemptBalance TOKEN_PROGRAM_ID),
      (''createInitializeMintInstruction'',
         InitializeMint mint (decimals (TOKEN_CONFIG cfg)) (publicKey wallet) (publicKey wallet)
           TOKEN_PROGRAM_ID),
      (''createAssociatedTokenAccountInstruction'',
         CreateAssociatedTokenAccount (publicKey wallet) associatedTokenAccount (publicKey wallet)
           mint TOKEN_PROGRAM_ID ASSOCIATED_TOKEN_PROGRAM_ID),
      (''createMintToInstruction'',
         MintTo mint associatedTokenAccount (publicKey wallet) (mintAmount s (TOKEN_CONFIG cfg)) []
           TOKEN_PROGRAM_ID),
      (''createCreateMetadataAccountV3Instruction'',
         CreateMetadataAccountV3 metadataAddress mint (publicKey wallet) (publicKey wallet)
           (publicKey wallet) (TOKEN_METADATA cfg) True)]"

text \<open>
  Running such statements one after the other: the first call that throws ends the run,
  with the transaction holding what was added before it.
\<close>

fun add_each ::
  "sdk \<Rightarrow> transaction \<Rightarrow> (string \<times> instruction) list \<Rightarrow> js_error option \<times> transaction" where
  "add_each s tx [] = (None, tx)"
| "add_each s tx ((ident, i) # rest) =
     (case call s ident i of
        Inl e \<Rightarrow> (Some e, tx)
      | Inr i' \<Rightarrow> add_each s (add tx i') rest)"

text \<open>
  The body of the \<^verbatim>\<open>try\<close> block. Each \<^verbatim>\<open>await\<close> and each SDK call is one
  \<open>case\<close>: its error leaves the block with the transaction as it stands. Logging and the
  low-balance warning do not change the result and are left out.
\<close>

definition createTokenWithMetadata_try ::
  "sdk \<Rightarrow> config \<Rightarrow> private_key \<Rightarrow> (js_error + token_result) outcome" where
  "createTokenWithMetadata_try s cfg privateKey =
    (case secretKey_of privateKey of Inl e \<Rightarrow> throws e new_Transaction | Inr secretKey' \<Rightarrow>
    (case fromSecretKey s secretKey' of Inl e \<Rightarrow> throws e new_Transaction | Inr wallet \<Rightarrow>
    (case newConnection s (SolanaNetwork cfg) of Some e \<Rightarrow> throws e new_Transaction | None \<Rightarrow>
    (case getBalance s (publicKey wallet) of Inl e \<Rightarrow> throws e new_Transaction | Inr balance \<Rightarrow>
    (let mintKeypair = generate s;
         mint = publicKey mintKeypair
     in
    (case getAssociatedTokenAddress s mint (publicKey wallet) of
       Inl e \<Rightarrow> throws e new_Transaction | Inr associatedTokenAccount \<Rightarrow>
    (case findProgramAddressSync s [''metadata'', TOKEN_METADATA_PROGRAM_ID, mint]
            TOKEN_METADATA_PROGRAM_ID of
       Inl e \<Rightarrow> throws e new_Transaction | Inr metadataAddress \<Rightarrow>
    (case getMinimumBalanceForRentExemptMint s of
       Inl e \<Rightarrow> throws e new_Transaction | Inr rentExemptBalance \<Rightarrow>
    (case add_each s new_Transaction
            (token_calls s cfg wallet mint associatedTokenAccount metadataAddress
               rentExemptBalance) of
       (Some e, tx) \<Rightarrow> throws e tx
     | (None, tx) \<Rightarrow>
    (case sendAndConfirmTransaction s tx [wallet, mintKeypair] of
       Inl e \<Rightarrow> \<lparr>result = Inl e, built = tx, submitted = [(tx, [wallet, mintKeypair])]\<rparr>
     | Inr signature \<Rightarrow>
         \<lparr>result = Inr (Success signature mint metadataAddress associatedTokenAccount
                          (''https://solscan.io/token/'' @ mint)
                          (''https://solscan.io/tx/'' @ signature)),
          built = tx, submitted = [(tx, [wallet, mintKeypair])]\<rparr>))))))))))"

text \<open>
  The whole function: the \<^verbatim>\<open>catch\<close> block turns any error into the value
  \<^verbatim>\<open>{ success: false, error: error.message }\<close>.
\<close>

definition createTokenWithMetadata ::
  "sdk \<Rightarrow> config \<Rightarrow> private_key \<Rightarrow> token_result outcome" where
  "createTokenWithMetadata s cfg privateKey =
     (let out = createTokenWithMetadata_try s cfg privateKey
      in \<lparr>result = (case result out of Inl error \<Rightarrow> Failure (message error) | Inr r \<Rightarrow> r),
          built = built out, submitted = submitted out\<rparr>)"

section \<open>Wallets and transfers\<close>

text \<open>
  \<^verbatim>\<open>createWalletKeypair\<close>: a fresh key pair, returned as the address and the secret key
  in hexadecimal.
\<close>

definition createWalletKeypair :: "sdk \<Rightarrow> pubkey \<times> string" where
  "createWalletKeypair s =
     (let keypair = generate s;
          publicKey' = publicKey keypair;
          privateKey = toString_hex (secretKey keypair)
      in (publicKey', privateKey))"

text \<open>
  The transfers rethrow what they catch. \<open>InsufficientBalance have need\<close> is the
  \<^verbatim>\<open>Error\<close> made by the balance check before submission, whose message (in Chinese,
  "balance insufficient") names the balance at hand and the amount needed; \<open>Thrown\<close> is
  an error of the SDK or of the runtime.
\<close>

datatype transfer_error = InsufficientBalance number number | Thrown js_error

text \<open>\<^verbatim>\<open>transferSOL\<close>, the same in both copies of the wallet script.\<close>

definition transferSOL ::
  "sdk \<Rightarrow> config \<Rightarrow> string \<Rightarrow> string \<Rightarrow> number \<Rightarrow> (transfer_error + string) outcome" where
  "transferSOL s cfg senderPrivateKeyHex recipientPublicKeyStr amountSOL =
    (case newConnection s (SolanaNetwork cfg) of
       Some e \<Rightarrow> throws (Thrown e) new_Transaction | None \<Rightarrow>
    (let senderPrivateKeyBuffer = Buffer_from_hex senderPrivateKeyHex in
    (case fromSecretKey s senderPrivateKeyBuffer of
       Inl e \<Rightarrow> throws (Thrown e) new_Transaction | Inr senderKeypair \<Rightarrow>
    (case getBalance s (publicKey senderKeypair) of
       Inl e \<Rightarrow> throws (Thrown e) new_Transaction | Inr balance \<Rightarrow>
    (let balanceInSOL = js_div balance (Fin 1000000000) in
     if js_lt balanceInSOL amountSOL
     then throws (InsufficientBalance balanceInSOL amountSOL) new_Transaction
     else
    (case newPublicKey s recipientPublicKeyStr of
       Inl e \<Rightarrow> throws (Thrown e) new_Transaction | Inr recipientPublicKey \<Rightarrow>
    (let lamports = js_mul amountSOL (Fin 1000000000) in
    (case build s (Transfer (publicKey senderKeypair) recipientPublicKey lamports) of
       Inl e \<Rightarrow> throws (Thrown e) new_Transaction | Inr instruction \<Rightarrow>
    (let tx = add new_Transaction instruction in
    (case getLatestBlockhash s of
       Inl e \<Rightarrow> throws (Thrown e) tx | Inr blockhash \<Rightarrow>
    (let tx' = tx\<lparr>recentBlockhash := Some blockhash, feePayer := Some (publicKey senderKeypair)\<rparr> in
    (case sendAndConfirmTransaction s tx' [senderKeypair] of
       Inl e \<Rightarrow> \<lparr>result = Inl (Thrown e), built = tx', submitted = [(tx', [senderKeypair])]\<rparr>
     | Inr signature \<Rightarrow>
         \<lparr>result = Inr signature, built = tx', submitted = [(tx', [senderKeypair])]\<rparr>))))))))))))"

text \<open>
  \<^verbatim>\<open>transferToken\<close>, first part: the connection, the sender's key pair, the two
  addresses parsed, and the associated token accounts of sender and recipient.
\<close>

definition transfer_accounts ::
  "sdk \<Rightarrow> config \<Rightarrow> string \<Rightarrow> string \<Rightarrow> string \<Rightarrow>
     js_error + (keypair \<times> pubkey \<times> pubkey \<times> pubkey \<times> pubkey)" where
  "transfer_accounts s cfg senderPrivateKeyHex recipientPublicKeyStr mintAddressStr =
    (case newConnection s (SolanaNetwork cfg) of Some e \<Rightarrow> Inl e | None \<Rightarrow>
    (case fromSecretKey s (Buffer_from_hex senderPrivateKeyHex) of
       Inl e \<Rightarrow> Inl e | Inr senderKeypair \<Rightarrow>
    (case newPublicKey s recipientPublicKeyStr of Inl e \<Rightarrow> Inl e | Inr recipientPubkey \<Rightarrow>
    (case newPublicKey s mintAddressStr of Inl e \<Rightarrow> Inl e | Inr mintPubkey \<Rightarrow>
    (case getAssociatedTokenAddress s mintPubkey (publicKey senderKeypair) of
       Inl e \<Rightarrow> Inl e | Inr sourceAta \<Rightarrow>
    (case getAssociatedTokenAddress s mintPubkey recipientPubkey of
       Inl e \<Rightarrow> Inl e | Inr destAta \<Rightarrow>
       Inr (senderKeypair, recipientPubkey, mintPubkey, sourceAta, destAta)))))))"

text \<open>
  The block the script has twice, for the sender's account and for the recipient's:
  \<^verbatim>\<open>const info = await connection.getAccountInfo(ata); if (!info) tx.add(create...)\<close>.
\<close>

definition create_if_absent ::
  "sdk \<Rightarrow> transaction \<Rightarrow> pubkey \<Rightarrow> pubkey \<Rightarrow> pubkey \<Rightarrow> pubkey \<Rightarrow> js_error option \<times> transaction" where
  "create_if_absent s tx payer ata owner mintPubkey =
    (case getAccountInfo s ata of
       Inl e \<Rightarrow> (Some e, tx)
     | Inr info \<Rightarrow>
         (case info of
            Some a \<Rightarrow> (None, tx)
          | None \<Rightarrow>
              (case build s (CreateAssociatedTokenAccount payer ata owner mintPubkey
                               TOKEN_PROGRAM_ID ASSOCIATED_TOKEN_PROGRAM_ID) of
                 Inl e \<Rightarrow> (Some e, tx)
               | Inr i \<Rightarrow> (None, add tx i))))"

text \<open>
  The amount in the mint's smallest units,
  \<^verbatim>\<open>Math.round(amount * Math.pow(10, mintInfo.decimals))\<close>, and the balance at hand:
  the parsed answer of the balance query, or zero when the query throws.
\<close>

definition amountInSmallestUnits :: "sdk \<Rightarrow> number \<Rightarrow> mint_info \<Rightarrow> number" where
  "amountInSmallestUnits s amount mintInfo =
     Math_round (js_mul amount (Math_pow10 s (mint_decimals mintInfo)))"

definition token_balance :: "sdk \<Rightarrow> pubkey \<Rightarrow> number" where
  "token_balance s sourceAta =
     (case getTokenAccountBalance s sourceAta of
        Inl e \<Rightarrow> Fin 0
      | Inr amount \<Rightarrow> parseInt amount 10)"

text \<open>
  \<^verbatim>\<open>transferToken\<close>, up to the balance check: the accounts, the two conditional
  creations and the mint's own data. An error comes with the transaction as it stands.
\<close>

definition transfer_prepare ::
  "sdk \<Rightarrow> config \<Rightarrow> string \<Rightarrow> string \<Rightarrow> string \<Rightarrow>
     (js_error \<times> transaction)
       + (keypair \<times> pubkey \<times> pubkey \<times> pubkey \<times> pubkey \<times> transaction \<times> mint_info)" where
  "transfer_prepare s cfg senderPrivateKeyHex recipientPublicKeyStr mintAddressStr =
    (case transfer_accounts s cfg senderPrivateKeyHex recipientPublicKeyStr mintAddressStr of
       Inl e \<Rightarrow> Inl (e, new_Transaction)
     | Inr (senderKeypair, recipientPubkey, mintPubkey, sourceAta, destAta) \<Rightarrow>
    (case create_if_absent s new_Transaction (publicKey senderKeypair) sourceAta
            (publicKey senderKeypair) mintPubkey of
       (Some e, tx) \<Rightarrow> Inl (e, tx)
     | (None, tx1) \<Rightarrow>
    (case create_if_absent s tx1 (publicKey senderKeypair) destAta recipientPubkey mintPubkey of
       (Some e, tx) \<Rightarrow> Inl (e, tx)
     | (None, tx2) \<Rightarrow>
    (case getMint s mintPubkey of
       Inl e \<Rightarrow> Inl (e, tx2)
     | Inr mintInfo \<Rightarrow>
         Inr (senderKeypair, recipientPubkey, mintPubkey, sourceAta, destAta, tx2, mintInfo)))))"

text \<open>\<^verbatim>\<open>transferToken\<close>: the balance check, the transfer instruction, the submission.\<close>

definition transferToken ::
  "sdk \<Rightarrow> config \<Rightarrow> string \<Rightarrow> string \<Rightarrow> string \<Rightarrow> number \<Rightarrow> (transfer_error + string) outcome" where
  "transferToken s cfg senderPrivateKeyHex recipientPublicKeyStr mintAddressStr amount =
    (case transfer_prepare s cfg senderPrivateKeyHex recipientPublicKeyStr mintAddressStr of
       Inl (e, tx) \<Rightarrow> throws (Thrown e) tx
     | Inr (senderKeypair, recipientPubkey, mintPubkey, sourceAta, destAta, tx2, mintInfo) \<Rightarrow>
    (let need = amountInSmallestUnits s amount mintInfo;
         have = token_balance s sourceAta
     in
     if js_lt have need then throws (InsufficientBalance have need) tx2
     else
    (case build s (TransferChecked sourceAta mintPubkey destAta (publicKey senderKeypair) need
                     (mint_decimals mintInfo) [] TOKEN_PROGRAM_ID) of
       Inl e \<Rightarrow> throws (Thrown e) tx2 | Inr i \<Rightarrow>
    (let tx3 = add tx2 i in
    (case getLatestBlockhash s of
       Inl e \<Rightarrow> throws (Thrown e) tx3 | Inr blockhash \<Rightarrow>
    (let tx4 = tx3\<lparr>recentBlockhash := Some blockhash, feePayer := Some (publicKey senderKeypair)\<rparr> in
    (case sendAndConfirmTransaction s tx4 [senderKeypair] of
       Inl e \<Rightarrow> \<lparr>result = Inl (Thrown e), built = tx4, submitted = [(tx4, [senderKeypair])]\<rparr>
     | Inr signature \<Rightarrow>
         \<lparr>result = Inr signature, built = tx4, submitted = [(tx4, [senderKeypair])]\<rparr>)))))))"


text \<open>Instructions that create the associated token account at a given address.\<close>

fun creates :: "pubkey \<Rightarrow> instruction \<Rightarrow> bool" where
  "creates a (CreateAssociatedTokenAccount payer ata owner mintPubkey prog aprog) = (ata = a)"
| "creates a i = False"

text \<open>Strings of hexadecimal digits, and the lower-case form of a letter.\<close>

definition is_hex_string :: "string \<Rightarrow> bool" where
  "is_hex_string x = list_all (is_digit 16) x"

definition lower :: "char \<Rightarrow> char" where
  "lower c = (let n = (of_char c :: nat) in if 65 \<le> n \<and> n \<le> 90 then char_of (n + 32) else c)"

section \<open>A sample run\<close>

text \<open>
  A network on which every call succeeds, a configuration, and the key pair the scripts
  themselves use in \<^verbatim>\<open>main\<close>. The sample key pair is accepted whenever the secret key
  has 64 bytes.
\<close>

definition sample_sdk :: sdk where
  "sample_sdk =
     \<lparr>newConnection = (\<lambda>url. None),
      fromSecretKey = (\<lambda>bs. if length bs = 64
                            then Inr \<lparr>publicKey = ''2pkqS8fDtR3vizXJcbVnTfeck2JvYZy3r6wzDH5T9NMv'',
                                      secretKey = bs\<rparr>
                            else Inl (SdkError ''bad secret key size'')),
      generate = \<lparr>publicKey = ''6fWKREANuHe3Mo8zCFcxbT4UE8DMZh16iVcGXuaiiGoK'', secretKey = []\<rparr>,
      newPublicKey = (\<lambda>str. Inr str),
      getBalance = (\<lambda>a. Inr (Fin 1000000000)),
      getAssociatedTokenAddress = (\<lambda>m owner. Inr (''ata:'' @ owner)),
      findProgramAddressSync = (\<lambda>seeds programId. Inr (''metadata:'' @ last seeds)),
      getMinimumBalanceForRentExemptMint = Inr (Fin 1461600),
      getAccountInfo = (\<lambda>a. Inr (Some [])),
      getMint = (\<lambda>m. Inr \<lparr>mint_decimals = 6\<rparr>),
      getTokenAccountBalance = (\<lambda>a. Inr ''5000000''),
      getLatestBlockhash = Inr ''blockhash'',
      rejects = (\<lambda>i. None),
      sendAndConfirmTransaction = (\<lambda>tx signers. Inr ''signature''),
      engine_pow10 = (\<lambda>d. fl (10 ^ d))\<rparr>"

definition sample_config :: config where
  "sample_config =
     \<lparr>SolanaNetwork = ''https://api.devnet.solana.com'',
      TOKEN_METADATA = \<lparr>name = ''Token'', symbol = ''TKN'', uri = ''https://example.org/t.json'',
                        sellerFeeBasisPoints = 0\<rparr>,
      TOKEN_CONFIG = \<lparr>decimals = 6, initialSupply = Fin 1000000\<rparr>\<rparr>"

definition sample_key :: string where
  "sample_key = ''1762a599b597f0c6b2cc0cac9fda0f8c6424abbd3fd0490790b0bbdc56f4cb8f1b178ca6215382b28196b363cc1081c9476c1215412fa451dcd14f30a6ebc711''"

text \<open>The recipient and the mint of the wallet script's \<^verbatim>\<open>main\<close>.\<close>

definition sample_recipient :: string where
  "sample_recipient = ''xvHxkkPZ7sX2s2XKkCNWHpcgcBjFuThKrqxppTU1DA7''"

definition sample_mint :: string where
  "sample_mint = ''6fWKREANuHe3Mo8zCFcxbT4UE8DMZh16iVcGXuaiiGoK''"

definition sample_sender :: string where
  "sample_sender = ''2pkqS8fDtR3vizXJcbVnTfeck2JvYZy3r6wzDH5T9NMv''"

text \<open>The Numbers that the literals \<^verbatim>\<open>0.005\<close>, \<^verbatim>\<open>0.067\<close> and \<^verbatim>\<open>0.000001\<close> denote.\<close>

definition Number_0_005 :: number where
  "Number_0_005 = fl (5 / 1000)"

definition Number_0_067 :: number where
  "Number_0_067 = fl (67 / 1000)"

definition Number_0_000001 :: number where
  "Number_0_000001 = fl (1 / 1000000)"

text \<open>The sample key with its letters in upper case.\<close>

definition upper_key :: string where
  "upper_key = ''1762A599B597F0C6B2CC0CAC9FDA0F8C6424ABBD3FD0490790B0BBDC56F4CB8F1B178CA6215382B28196B363CC1081C9476C1215412FA451DCD14F30A6EBC711''"


definition no_accounts_sdk :: sdk where
  "no_accounts_sdk =
     sample_sdk\<lparr>getAccountInfo := (\<lambda>a. Inr None),
                 getTokenAccountBalance := (\<lambda>a. Inl (SdkError ''could not find account''))\<rparr>"

definition empty_account_sdk :: sdk where
  "empty_account_sdk = sample_sdk\<lparr>getTokenAccountBalance := (\<lambda>a. Inr ''0'')\<rparr>"


text \<open>
  The sample network with a transfer builder that converts the lamports to a
  \<^verbatim>\<open>BigInt\<close>, as recent versions of the SDK do: the conversion throws a
  \<^verbatim>\<open>RangeError\<close> unless the Number is an integer.
\<close>

definition integer_lamports_sdk :: sdk where
  "integer_lamports_sdk =
     sample_sdk\<lparr>rejects :=
       (\<lambda>i. case i of
               Transfer fromPubkey toPubkey lamports \<Rightarrow>
                 (case lamports of
                    Fin x \<Rightarrow> if \<lfloor>x\<rfloor> = \<lceil>x\<rceil> then None
                             else Some (RangeError ''The number cannot be converted to a BigInt because it is not an integer'')
                  | y \<Rightarrow> Some (RangeError ''The number cannot be converted to a BigInt because it is not an integer''))
             | j \<Rightarrow> None)\<rparr>"

text \<open>The sample configuration with a supply of 9,999,999,999 tokens of 9 decimals.\<close>

definition large_supply_config :: config where
  "large_supply_config =
     sample_config\<lparr>TOKEN_CONFIG := \<lparr>decimals = 9, initialSupply = Fin 9999999999\<rparr>\<rparr>"

section \<open>Numbers: exact cases\<close>

text \<open>An integer below \<open>2\<^sup>5\<^sup>3\<close> is a Number: rounding leaves it as it is.\<close>

lemma floor_rat_numeral:
  "\<lfloor>numeral a / numeral b :: rat\<rfloor> = numeral a div numeral b"
  using floor_divide_of_int_eq [of "numeral a" "numeral b", where ?'a = rat] by simp

lemma ceiling_rat_numeral:
  "\<lceil>numeral a / numeral b :: rat\<rceil> = - (- numeral a div numeral b)"
  using floor_divide_of_int_eq [of "- numeral a" "numeral b", where ?'a = rat]
  by (simp add: ceiling_def)

lemmas fl_eval = fl_def fl_pos_def ilog2_def rne_def pow2_def Let_def compute_bitlen
  floor_rat_numeral ceiling_rat_numeral

lemma rne_of_int: "rne (of_int m) = m"
  by (simp add: rne_def)

lemma pow2_nonpos: "e \<le> 0 \<Longrightarrow> pow2 e = 1 / 2 ^ nat (- e)"
  by (cases "e = 0") (simp_all add: pow2_def)

lemma fl_pos_of_int:
  assumes "0 < n" "n < 2 ^ 53"
  shows "fl_pos (of_int n) = of_int n"
proof -
  have b1: "bitlen n \<le> 53"
    using assms by (simp add: bitlen_le_iff_power)
  have b0: "0 \<le> bitlen n" by (rule bitlen_nonneg)
  define e where "e = max (bitlen n - 53) (- 1074)"
  have e: "e = bitlen n - 53" "e \<le> 0"
    using b0 b1 by (simp_all add: e_def)
  have il: "ilog2 (of_int n) = bitlen n - 1"
    using assms by (simp add: ilog2_def)
  have p: "pow2 e = 1 / 2 ^ nat (- e)"
    using e by (simp add: pow2_nonpos)
  have "(of_int n :: rat) / pow2 e = of_int (n * 2 ^ nat (- e))"
    by (simp add: p)
  then have "rne (of_int n / pow2 e) = n * 2 ^ nat (- e)"
    by (simp only: rne_of_int)
  then have "of_int (rne (of_int n / pow2 e)) * pow2 e = (of_int n :: rat)"
    by (simp add: p)
  moreover have "fl_pos (of_int n) = of_int (rne (of_int n / pow2 e)) * pow2 e"
    by (simp add: fl_pos_def il e_def Let_def)
  ultimately show ?thesis by simp
qed

lemma fl_of_int:
  assumes "0 \<le> n" "n < 2 ^ 53"
  shows "fl (of_int n) = Fin (of_int n)"
proof (cases "n = 0")
  case True
  then show ?thesis by (simp add: fl_def)
next
  case False
  with assms have pos: "0 < n" by simp
  have r: "fl_pos (of_int n) = of_int n"
    using pos assms(2) by (rule fl_pos_of_int)
  have "(of_int n :: rat) < of_int (2 ^ 53)"
    using assms(2) by (simp only: of_int_less_iff)
  also have "\<dots> < pow2 1024"
    by (simp add: pow2_def)
  finally have "\<not> pow2 1024 \<le> (of_int n :: rat)" by simp
  then show ?thesis
    using pos r by (simp add: fl_def Let_def)
qed

text \<open>
  More generally, an integer \<open>M \<times> 2\<^sup>k\<close> with \<open>M < 2\<^sup>5\<^sup>3\<close>, below \<open>2\<^sup>1\<^sup>0\<^sup>2\<^sup>4\<close> in absolute value,
  is a Number.
\<close>

lemma fl_pos_binary64_int:
  assumes "0 < M" "M < 2 ^ 53"
  shows "fl_pos (of_int (M * 2 ^ k)) = of_int (M * 2 ^ k)"
proof -
  let ?n = "M * 2 ^ k"
  have "1 \<le> M" using assms(1) by simp
  moreover have "(1::int) \<le> 2 ^ k" by simp
  ultimately have "1 * 1 \<le> M * 2 ^ k" by (intro mult_mono) simp_all
  then have pos: "1 \<le> ?n" by simp
  have b1: "bitlen M \<le> 53"
    using assms by (simp add: bitlen_le_iff_power)
  have b0: "0 \<le> bitlen M" by (rule bitlen_nonneg)
  have bl: "bitlen ?n = bitlen M + int k"
    using assms(1) by simp
  have il: "ilog2 (of_int ?n) = bitlen ?n - 1"
    using pos by (simp add: ilog2_def del: of_int_mult of_int_power)
  define e where "e = max (bitlen ?n - 1 - 52) (- 1074)"
  have ek: "e \<le> int k"
    using b1 by (simp add: e_def bl)
  have r: "of_int (rne (of_int ?n / pow2 e)) * pow2 e = (of_int ?n :: rat)"
  proof (cases "e \<le> 0")
    case True
    then have p: "pow2 e = 1 / 2 ^ nat (- e)" by (rule pow2_nonpos)
    have "(of_int ?n :: rat) / pow2 e = of_int (?n * 2 ^ nat (- e))"
      by (simp add: p)
    then have "rne (of_int ?n / pow2 e) = ?n * 2 ^ nat (- e)"
      by (simp only: rne_of_int)
    then show ?thesis by (simp add: p)
  next
    case False
    then have p: "pow2 e = 2 ^ nat e" by (simp add: pow2_def)
    from False ek have le: "nat e \<le> k" by simp
    then have k: "k = (k - nat e) + nat e" by simp
    have "(2::rat) ^ k = 2 ^ (k - nat e) * 2 ^ nat e"
      by (subst k) (simp only: power_add)
    then have "(of_int ?n :: rat) / pow2 e = of_int (M * 2 ^ (k - nat e))"
      by (simp add: p)
    then have "rne (of_int ?n / pow2 e) = M * 2 ^ (k - nat e)"
      by (simp only: rne_of_int)
    then have "of_int (rne (of_int ?n / pow2 e)) * pow2 e
                 = (of_int M * (2 ^ (k - nat e) * 2 ^ nat e) :: rat)"
      by (simp add: p)
    also have "\<dots> = of_int M * 2 ^ k"
      using \<open>(2::rat) ^ k = 2 ^ (k - nat e) * 2 ^ nat e\<close> by simp
    finally show ?thesis by simp
  qed
  have "fl_pos (of_int ?n) = of_int (rne (of_int ?n / pow2 e)) * pow2 e"
    by (simp only: fl_pos_def il e_def Let_def)
  with r show ?thesis by simp
qed

lemma fl_int_binary64:
  assumes "\<bar>N\<bar> = M * 2 ^ k" and "M < 2 ^ 53" and "\<bar>N\<bar> < 2 ^ 1024"
  shows "fl (of_int N) = Fin (of_int N)"
proof (cases "N = 0")
  case True
  then show ?thesis by (simp add: fl_def)
next
  case False
  then have "0 < \<bar>N\<bar>" by simp
  with assms(1) have "0 < M * 2 ^ k" by simp
  then have M: "0 < M" by (simp add: zero_less_mult_iff)
  have a: "\<bar>of_int N :: rat\<bar> = of_int (M * 2 ^ k)"
    using assms(1) by (metis of_int_abs)
  have r: "fl_pos \<bar>of_int N :: rat\<bar> = \<bar>of_int N\<bar>"
    unfolding a using M assms(2) by (rule fl_pos_binary64_int)
  have "(of_int \<bar>N\<bar> :: rat) < of_int (2 ^ 1024)"
    using assms(3) by (simp only: of_int_less_iff)
  then have "\<bar>of_int N :: rat\<bar> < pow2 1024"
    by (simp add: pow2_def)
  then have "\<not> pow2 1024 \<le> \<bar>of_int N :: rat\<bar>" by simp
  then show ?thesis
    using False by (simp add: fl_def r Let_def del: of_int_abs)
qed

text \<open>
  Rounding an integer below \<open>2\<^sup>1\<^sup>0\<^sup>2\<^sup>3\<close> in absolute value gives a finite Number, off by at
  most the fraction \<open>2\<^sup>-\<^sup>5\<^sup>3\<close> of the integer: 53 significant bits.
\<close>

lemma rne_error: "\<bar>of_int (rne x) - x\<bar> \<le> 1 / 2"
proof -
  define d where "d = x - of_int \<lfloor>x\<rfloor>"
  have d: "0 \<le> d" "d < 1" by (simp_all add: d_def) linarith
  have e1: "of_int \<lfloor>x\<rfloor> - x = - d" by (simp add: d_def)
  have e2: "of_int (\<lfloor>x\<rfloor> + 1) - x = 1 - d" by (simp add: d_def)
  consider "d < 1 / 2" | "1 / 2 < d" | "d = 1 / 2" by linarith
  then have "of_int (rne x) - x = - d \<and> d \<le> 1 / 2 \<or> of_int (rne x) - x = 1 - d \<and> 1 / 2 \<le> d"
  proof cases
    case 1
    then have "rne x = \<lfloor>x\<rfloor>" by (simp add: rne_def d_def Let_def)
    with e1 1 show ?thesis by simp
  next
    case 2
    then have "rne x = \<lfloor>x\<rfloor> + 1" by (simp add: rne_def d_def Let_def)
    with e2 2 show ?thesis by simp
  next
    case 3
    then have "rne x = \<lfloor>x\<rfloor> \<or> rne x = \<lfloor>x\<rfloor> + 1"
      by (simp add: rne_def d_def Let_def)
    with e1 e2 3 show ?thesis by auto
  qed
  with d show ?thesis by (auto simp: abs_if)
qed

lemma pow2_pos: "0 < pow2 e"
  by (simp add: pow2_def)

lemma pow2_scaled:
  assumes "0 \<le> l"
  shows "pow2 (l - 52) * 2 ^ 52 = 2 ^ nat l"
proof (cases "0 \<le> l - 52")
  case True
  then have "nat l = nat (l - 52) + 52" by simp
  then have "(2::rat) ^ nat l = 2 ^ nat (l - 52) * 2 ^ 52"
    by (simp only: power_add)
  with True show ?thesis by (simp add: pow2_def)
next
  case False
  with assms have "52 = nat (- (l - 52)) + nat l" by simp
  then have h: "(2::rat) ^ 52 = 2 ^ nat (- (l - 52)) * 2 ^ nat l"
    by (simp only: power_add [symmetric])
  have "pow2 (l - 52) = 1 / 2 ^ nat (- (l - 52))"
    using False by (simp add: pow2_def)
  then have "pow2 (l - 52) * 2 ^ 52
               = 1 / 2 ^ nat (- (l - 52)) * (2 ^ nat (- (l - 52)) * 2 ^ nat l)"
    by (simp only: h)
  also have "\<dots> = 2 ^ nat l" by simp
  finally show ?thesis .
qed

lemma fl_pos_int_error:
  assumes "1 \<le> n"
  shows "\<bar>fl_pos (of_int n) - of_int n\<bar> * 2 ^ 53 \<le> of_int n"
proof -
  define l where "l = bitlen n - 1"
  have n0: "0 < n" using assms by simp
  from bitlen_bounds [OF n0] have lo: "2 ^ nat l \<le> n" by (simp add: l_def)
  have "1 \<le> bitlen n" using n0 by (simp add: bitlen_alt_def)
  then have l0: "0 \<le> l" by (simp add: l_def)
  have il: "ilog2 (of_int n) = l"
    using assms by (simp add: ilog2_def l_def)
  define e where "e = l - 52"
  have em: "max (l - 52) (- 1074) = e" using l0 by (simp add: e_def)
  define q where "q = (of_int n :: rat) / pow2 e"
  have f: "fl_pos (of_int n) = of_int (rne q) * pow2 e"
    by (simp add: fl_pos_def il em q_def Let_def)
  have n: "(of_int n :: rat) = q * pow2 e"
    using pow2_pos [of e] by (simp add: q_def)
  have "fl_pos (of_int n) - of_int n = (of_int (rne q) - q) * pow2 e"
    by (subst n) (simp add: f algebra_simps)
  then have "\<bar>fl_pos (of_int n) - of_int n\<bar> = \<bar>of_int (rne q) - q\<bar> * pow2 e"
    using pow2_pos [of e] by (simp add: abs_mult)
  also have "\<dots> \<le> 1 / 2 * pow2 e"
    using rne_error [of q] pow2_pos [of e] by (intro mult_right_mono) simp_all
  finally have "\<bar>fl_pos (of_int n) - of_int n\<bar> * 2 ^ 53 \<le> 1 / 2 * pow2 e * 2 ^ 53"
    by (intro mult_right_mono) simp_all
  also have "\<dots> = pow2 (l - 52) * 2 ^ 52" by (simp add: e_def)
  also have "\<dots> = 2 ^ nat l" using l0 by (rule pow2_scaled)
  also have "\<dots> \<le> of_int n"
    using lo by (metis of_int_le_iff of_int_numeral of_int_power)
  finally show ?thesis .
qed

lemma fl_int_error:
  assumes "\<bar>N\<bar> < 2 ^ 1023"
  shows "\<exists>r. fl (of_int N) = Fin r \<and> \<bar>r - of_int N\<bar> * 2 ^ 53 \<le> \<bar>of_int N\<bar>"
proof (cases "N = 0")
  case True
  then show ?thesis by (simp add: fl_def)
next
  case False
  define n where "n = \<bar>N\<bar>"
  have n1: "1 \<le> n" using False by (simp add: n_def)
  have a: "\<bar>of_int N :: rat\<bar> = of_int n" by (simp add: n_def)
  define r where "r = fl_pos (of_int n)"
  have err: "\<bar>r - of_int n\<bar> * 2 ^ 53 \<le> of_int n"
    unfolding r_def using n1 by (rule fl_pos_int_error)
  have "(of_int n :: rat) < of_int (2 ^ 1023)"
    using assms unfolding n_def by (simp only: of_int_less_iff)
  then have nb: "(of_int n :: rat) < 2 ^ 1023" by simp
  have "\<bar>r - of_int n\<bar> * 1 \<le> \<bar>r - of_int n\<bar> * 2 ^ 53"
    by (intro mult_left_mono) simp_all
  from order_trans [OF this err] have "\<bar>r - of_int n\<bar> \<le> of_int n" by simp
  then have "r \<le> 2 * of_int n" by (simp add: abs_le_iff)
  with nb have "r < 2 ^ 1024" by simp
  then have no: "\<not> pow2 1024 \<le> r" by (simp add: pow2_def)
  have fl: "fl (of_int N) = Fin (if 0 < N then r else - r)"
    using False no by (simp add: fl_def a r_def [symmetric] Let_def del: of_int_abs)
  have "\<bar>(if 0 < N then r else - r) - of_int N\<bar> = \<bar>r - of_int n\<bar>"
    using False by (auto simp: n_def abs_if)
  with err fl a show ?thesis by (metis)
qed

text \<open>The powers of ten up to \<open>10\<^sup>2\<^sup>2\<close> are Numbers: \<open>10\<^sup>d = 5\<^sup>d \<times> 2\<^sup>d\<close> and \<open>5\<^sup>2\<^sup>2 < 2\<^sup>5\<^sup>3\<close>.\<close>

lemma pow10_binary64: "d \<le> 22 \<Longrightarrow> fl (10 ^ d) = Fin (10 ^ d)"
proof -
  assume d: "d \<le> 22"
  have "(5::int) ^ d \<le> 5 ^ 22" using d by (intro power_increasing) simp_all
  also have "\<dots> < 2 ^ 53" by simp
  finally have 5: "(5::int) ^ d < 2 ^ 53" .
  have "(10::int) ^ d \<le> 10 ^ 22" using d by (intro power_increasing) simp_all
  also have "\<dots> < 2 ^ 1024" by simp
  finally have 10: "\<bar>(10::int) ^ d\<bar> < 2 ^ 1024" by simp
  have "(10::int) ^ d = 5 ^ d * 2 ^ d"
    by (simp add: power_mult_distrib [symmetric])
  then have "\<bar>(10::int) ^ d\<bar> = 5 ^ d * 2 ^ d" by simp
  from fl_int_binary64 [OF this 5 10] show ?thesis by simp
qed

lemma Math_pow10_exact: "d \<le> 22 \<Longrightarrow> Math_pow10 s d = Fin (10 ^ d)"
  by (simp add: Math_pow10_def)

text \<open>The amount minted is the Number nearest to the exact product.\<close>

lemma mintAmount_value:
  assumes "initialSupply c = Fin a" and "decimals c \<le> 22"
  shows "mintAmount s c = fl (a * 10 ^ decimals c)"
  by (simp add: mintAmount_def assms(1) Math_pow10_exact [OF assms(2)])

lemma mintAmount_exact:
  assumes "initialSupply c = Fin (of_int A)" and "decimals c \<le> 22"
    and "\<bar>A * 10 ^ decimals c\<bar> = M * 2 ^ k" and "M < 2 ^ 53"
    and "\<bar>A * 10 ^ decimals c\<bar> < 2 ^ 1024"
  shows "mintAmount s c = Fin (of_int (A * 10 ^ decimals c))"
proof -
  have "mintAmount s c = fl (of_int (A * 10 ^ decimals c))"
    using mintAmount_value [OF assms(1,2), of s] by simp
  with fl_int_binary64 [OF assms(3-5)] show ?thesis by simp
qed

section \<open>Token creation: properties\<close>

lemma resolve_metadata:
  "resolve ''createCreateMetadataAccountV3Instruction'' =
     Inl (ReferenceError ''createCreateMetadataAccountV3Instruction is not defined'')"
  by (simp add: resolve_def module_scope_def)

lemma add_each_unbound:
  "(ident, i) \<in> set calls \<Longrightarrow> resolve ident = Inl e \<Longrightarrow> \<exists>e' tx. add_each s t calls = (Some e', tx)"
proof (induction calls arbitrary: t)
  case Nil
  then show ?case by simp
next
  case (Cons c calls)
  obtain ident' i' where c: "c = (ident', i')" by (cases c)
  show ?case
  proof (cases "call s ident' i'")
    case (Inl a)
    then show ?thesis by (simp add: c)
  next
    case (Inr b)
    have "(ident', i') \<noteq> (ident, i)"
      using Inr Cons.prems(2) by (auto simp: call_def)
    then have "(ident, i) \<in> set calls"
      using Cons.prems(1) c by auto
    then show ?thesis
      using Cons.IH Cons.prems(2) Inr by (simp add: c)
  qed
qed

lemma token_calls_throw:
  "\<exists>e tx. add_each s t (token_calls s cfg w m a md r) = (Some e, tx)"
  by (rule add_each_unbound [OF _ resolve_metadata]) (simp add: token_calls_def)

lemma token_calls_not_None:
  "add_each s t (token_calls s cfg w m a md r) \<noteq> (None, tx)"
  using token_calls_throw [of s t cfg w m a md r] by auto

lemma try_fails:
  "\<exists>e. result (createTokenWithMetadata_try s cfg pk) = Inl e
     \<and> submitted (createTokenWithMetadata_try s cfg pk) = []"
  unfolding createTokenWithMetadata_try_def throws_def Let_def
  by (auto split: sum.splits option.splits prod.splits simp: token_calls_not_None)

lemma MintTo_amount:
  "MintTo m d a amt ms p \<in> set (instructions (snd (add_each s t calls))) \<Longrightarrow>
   MintTo m d a amt ms p \<in> set (instructions t) \<or> (\<exists>ident. (ident, MintTo m d a amt ms p) \<in> set calls)"
proof (induction calls arbitrary: t)
  case Nil
  then show ?case by simp
next
  case (Cons c calls)
  obtain ident' i' where c: "c = (ident', i')" by (cases c)
  show ?case
  proof (cases "call s ident' i'")
    case (Inl e)
    then show ?thesis using Cons.prems by (simp add: c)
  next
    case (Inr b)
    then have b: "b = i'"
      by (auto simp: call_def build_def split: sum.splits option.splits)
    from Cons.prems Inr have "MintTo m d a amt ms p \<in> set (instructions (snd (add_each s (add t b) calls)))"
      by (simp add: c)
    from Cons.IH [OF this] show ?thesis
      by (auto simp: add_def b c)
  qed
qed

lemma sample_secretKey:
  "\<exists>bs. secretKey_of (KeyString sample_key) = Inr bs \<and> length bs = 64"
  by (simp add: secretKey_of_def sample_key_def match_1_2_def is_line_terminator_def)

lemma sample_run:
  "createTokenWithMetadata sample_sdk (sample_config\<lparr>TOKEN_CONFIG := c\<rparr>) (KeyString sample_key) =
     \<lparr>result = Failure ''createCreateMetadataAccountV3Instruction is not defined'',
      built = \<lparr>instructions =
                 [SetComputeUnitLimit 250000,
                  SetComputeUnitPrice 200000,
                  CreateAccount ''2pkqS8fDtR3vizXJcbVnTfeck2JvYZy3r6wzDH5T9NMv''
                    ''6fWKREANuHe3Mo8zCFcxbT4UE8DMZh16iVcGXuaiiGoK'' 82 (Fin 1461600)
                    TOKEN_PROGRAM_ID,
                  InitializeMint ''6fWKREANuHe3Mo8zCFcxbT4UE8DMZh16iVcGXuaiiGoK'' (decimals c)
                    ''2pkqS8fDtR3vizXJcbVnTfeck2JvYZy3r6wzDH5T9NMv''
                    ''2pkqS8fDtR3vizXJcbVnTfeck2JvYZy3r6wzDH5T9NMv'' TOKEN_PROGRAM_ID,
                  CreateAssociatedTokenAccount ''2pkqS8fDtR3vizXJcbVnTfeck2JvYZy3r6wzDH5T9NMv''
                    ''ata:2pkqS8fDtR3vizXJcbVnTfeck2JvYZy3r6wzDH5T9NMv''
                    ''2pkqS8fDtR3vizXJcbVnTfeck2JvYZy3r6wzDH5T9NMv''
                    ''6fWKREANuHe3Mo8zCFcxbT4UE8DMZh16iVcGXuaiiGoK''
                    TOKEN_PROGRAM_ID ASSOCIATED_TOKEN_PROGRAM_ID,
                  MintTo ''6fWKREANuHe3Mo8zCFcxbT4UE8DMZh16iVcGXuaiiGoK''
                    ''ata:2pkqS8fDtR3vizXJcbVnTfeck2JvYZy3r6wzDH5T9NMv''
                    ''2pkqS8fDtR3vizXJcbVnTfeck2JvYZy3r6wzDH5T9NMv''
                    (mintAmount sample_sdk c) [] TOKEN_PROGRAM_ID],
               recentBlockhash = None, feePayer = None\<rparr>,
      submitted = []\<rparr>"
proof -
  from sample_secretKey
  obtain bs where bs: "secretKey_of (KeyString sample_key) = Inr bs" "length bs = 64"
    by blast
  show ?thesis
    by (simp add: createTokenWithMetadata_def createTokenWithMetadata_try_def bs sample_sdk_def
        sample_config_def token_calls_def call_def build_def resolve_def module_scope_def
        throws_def add_def new_Transaction_def MINT_SIZE_def Let_def)
qed

lemma sample_config_TOKEN_CONFIG:
  "sample_config = sample_config\<lparr>TOKEN_CONFIG := \<lparr>decimals = 6, initialSupply = Fin 1000000\<rparr>\<rparr>"
  by (simp add: sample_config_def)

lemma mintAmount_sample:
  "mintAmount s \<lparr>decimals = 6, initialSupply = Fin 1000000\<rparr> = Fin 1000000000000"
  using mintAmount_exact [of "\<lparr>decimals = 6, initialSupply = Fin 1000000\<rparr>" 1000000
      1000000000000 0 s]
  by simp

text \<open>A product beyond \<open>2\<^sup>5\<^sup>3\<close> that is a Number: \<open>10\<^sup>9\<close> tokens of 9 decimals.\<close>

lemma mintAmount_billion:
  "mintAmount s \<lparr>decimals = 9, initialSupply = Fin 1000000000\<rparr> = Fin 1000000000000000000"
  using mintAmount_exact [of "\<lparr>decimals = 9, initialSupply = Fin 1000000000\<rparr>" 1000000000
      3814697265625 18 s]
  by simp

lemma mintAmount_large_supply:
  "mintAmount s \<lparr>decimals = 9, initialSupply = Fin 9999999999\<rparr> = Fin 9999999999000000512"
  by (simp add: mintAmount_def Math_pow10_def fl_eval)

lemma add_each_length:
  "length (instructions (snd (add_each s t calls))) \<le> length (instructions t) + length calls"
proof (induction calls arbitrary: t)
  case Nil
  then show ?case by simp
next
  case (Cons c calls)
  obtain ident' i' where c: "c = (ident', i')" by (cases c)
  show ?case
  proof (cases "call s ident' i'")
    case (Inl e)
    then show ?thesis by (simp add: c)
  next
    case (Inr b)
    have "length (instructions (snd (add_each s (add t b) calls)))
            \<le> length (instructions (add t b)) + length calls"
      by (rule Cons.IH)
    then show ?thesis using Inr by (simp add: c add_def)
  qed
qed

lemma add_each_thrown_length:
  "add_each s t calls = (Some e, tx) \<Longrightarrow>
   length (instructions tx) < length (instructions t) + length calls"
proof (induction calls arbitrary: t)
  case Nil
  then show ?case by simp
next
  case (Cons c calls)
  obtain ident' i' where c: "c = (ident', i')" by (cases c)
  show ?case
  proof (cases "call s ident' i'")
    case (Inl e')
    then show ?thesis using Cons.prems by (simp add: c)
  next
    case (Inr b)
    with Cons.prems have "add_each s (add t b) calls = (Some e, tx)" by (simp add: c)
    from Cons.IH [OF this] show ?thesis by (simp add: add_def)
  qed
qed

lemma built_try_cases:
  "built (createTokenWithMetadata_try s cfg pk) = new_Transaction \<or>
   (\<exists>w m a md r. built (createTokenWithMetadata_try s cfg pk)
                  = snd (add_each s new_Transaction (token_calls s cfg w m a md r)))"
  unfolding createTokenWithMetadata_try_def throws_def Let_def
  by (auto split: sum.splits option.splits prod.splits simp: token_calls_not_None)
     (metis snd_conv)+

lemma built_createTokenWithMetadata:
  "built (createTokenWithMetadata s cfg pk) = built (createTokenWithMetadata_try s cfg pk)"
  by (simp add: createTokenWithMetadata_def Let_def)

lemma fewer_than_seven:
  "length (instructions (built (createTokenWithMetadata s cfg pk))) < 7"
proof -
  have "length (instructions (snd (add_each s new_Transaction (token_calls s cfg w m a md r)))) < 7"
    for w m a md r
  proof -
    obtain e tx where *: "add_each s new_Transaction (token_calls s cfg w m a md r) = (Some e, tx)"
      using token_calls_throw by blast
    have "length (token_calls s cfg w m a md r) = 7"
      by (simp add: token_calls_def)
    with add_each_thrown_length [OF *] have "length (instructions tx) < 7"
      by (simp add: new_Transaction_def)
    then show ?thesis by (simp only: * snd_conv)
  qed
  then show ?thesis
    using built_try_cases [of s cfg pk]
    by (auto simp: built_createTokenWithMetadata new_Transaction_def)
qed

lemma MintTo_in_token_calls:
  "(ident, MintTo m d a amt ms p) \<in> set (token_calls s cfg w m' a' md r) \<Longrightarrow>
   amt = mintAmount s (TOKEN_CONFIG cfg)"
  by (auto simp: token_calls_def)

lemma MintTo_built:
  assumes "MintTo m d a amt ms p \<in> set (instructions (built (createTokenWithMetadata s cfg pk)))"
  shows "amt = mintAmount s (TOKEN_CONFIG cfg)"
proof -
  from built_try_cases [of s cfg pk] assms
  obtain w m' a' md r where
    "MintTo m d a amt ms p
       \<in> set (instructions (snd (add_each s new_Transaction (token_calls s cfg w m' a' md r))))"
    by (auto simp: built_createTokenWithMetadata new_Transaction_def)
  from MintTo_amount [OF this] show ?thesis
    by (auto simp: new_Transaction_def dest: MintTo_in_token_calls)
qed

text \<open>
  Claim C10. Whatever the key, the configuration and the answers of the network,
  \<^verbatim>\<open>createTokenWithMetadata\<close> returns the failure value and never calls
  \<^verbatim>\<open>sendAndConfirmTransaction\<close>: the seventh builder call names
  \<^verbatim>\<open>createCreateMetadataAccountV3Instruction\<close>, which the module does not bind, so a run
  that gets that far throws there, and a run that does not has thrown before.
\<close>

theorem createTokenWithMetadata_never_succeeds:
  "\<exists>msg. result (createTokenWithMetadata s cfg pk) = Failure msg
     \<and> submitted (createTokenWithMetadata s cfg pk) = []"
  using try_fails [of s cfg pk] by (auto simp: createTokenWithMetadata_def Let_def)


text \<open>
  Claim C1, as it fails on the code. On the sample network, where every call succeeds,
  the transaction holds six instructions when the function exits, not seven: the
  metadata instruction is never built, the function returns the failure value with the
  message of the \<^verbatim>\<open>ReferenceError\<close>, and nothing is submitted. (On any network the
  transaction holds fewer than seven instructions: \<open>fewer_than_seven\<close>.)
\<close>

theorem createTokenWithMetadata_sample_six_instructions:
  "instructions (built (createTokenWithMetadata sample_sdk sample_config (KeyString sample_key)))
     = [SetComputeUnitLimit 250000,
        SetComputeUnitPrice 200000,
        CreateAccount sample_sender sample_mint 82 (Fin 1461600) TOKEN_PROGRAM_ID,
        InitializeMint sample_mint 6 sample_sender sample_sender TOKEN_PROGRAM_ID,
        CreateAssociatedTokenAccount sample_sender (''ata:'' @ sample_sender) sample_sender
          sample_mint TOKEN_PROGRAM_ID ASSOCIATED_TOKEN_PROGRAM_ID,
        MintTo sample_mint (''ata:'' @ sample_sender) sample_sender (Fin 1000000000000) []
          TOKEN_PROGRAM_ID]
   \<and> length (instructions (built (createTokenWithMetadata sample_sdk sample_config
                                    (KeyString sample_key)))) = 6
   \<and> result (createTokenWithMetadata sample_sdk sample_config (KeyString sample_key))
       = Failure ''createCreateMetadataAccountV3Instruction is not defined''
   \<and> submitted (createTokenWithMetadata sample_sdk sample_config (KeyString sample_key)) = []"
  by (subst (1 2 3 4) sample_config_TOKEN_CONFIG)
     (simp add: sample_run mintAmount_sample sample_sender_def sample_mint_def)

text \<open>
  Claim C2, as stated, fails: the amount is a product of Numbers, rounded to 53
  significant bits. For a supply of 9,999,999,999 tokens of 9 decimals the mint
  instruction carries 9,999,999,999,000,000,512 and not 9,999,999,999,000,000,000.
\<close>

theorem mint_amount_large_supply_counterexample:
  "instructions (built (createTokenWithMetadata sample_sdk large_supply_config
                          (KeyString sample_key))) ! 5
     = MintTo ''6fWKREANuHe3Mo8zCFcxbT4UE8DMZh16iVcGXuaiiGoK''
         ''ata:2pkqS8fDtR3vizXJcbVnTfeck2JvYZy3r6wzDH5T9NMv''
         ''2pkqS8fDtR3vizXJcbVnTfeck2JvYZy3r6wzDH5T9NMv''
         (Fin 9999999999000000512) [] TOKEN_PROGRAM_ID
   \<and> Fin 9999999999000000512 \<noteq> Fin (9999999999 * 10 ^ 9)"
  by (simp add: large_supply_config_def sample_run mintAmount_large_supply)

text \<open>
  Claim C2, amended. For a whole supply \<open>A\<close> and at most 22 decimals \<open>D\<close>, every mint
  instruction of the built transaction carries the Number nearest to \<open>A \<times> 10\<^sup>D\<close>: the
  product is one floating-point multiplication, rounded once, not integer arithmetic.
  The amount is therefore exactly \<open>A \<times> 10\<^sup>D\<close> whenever that product is itself a Number,
  that is, of the form \<open>M \<times> 2\<^sup>k\<close> with \<open>M < 2\<^sup>5\<^sup>3\<close> and below \<open>2\<^sup>1\<^sup>0\<^sup>2\<^sup>4\<close>: so for every
  product below \<open>2\<^sup>5\<^sup>3\<close> (\<open>k = 0\<close>), and beyond it for one such as \<open>10\<^sup>1\<^sup>8\<close>
  (\<open>mintAmount_billion\<close>). For any other product below \<open>2\<^sup>1\<^sup>0\<^sup>2\<^sup>3\<close> it is finite and differs
  from the product by at most its fraction \<open>2\<^sup>-\<^sup>5\<^sup>3\<close>. The witness is the scenario of the
  specification: 6 decimals and 1,000,000 tokens give 1,000,000,000,000.
\<close>

theorem mint_amount_nearest_binary64:
  assumes "MintTo m d a amt ms p \<in> set (instructions (built (createTokenWithMetadata s cfg pk)))"
    and "initialSupply (TOKEN_CONFIG cfg) = Fin (of_int A)"
    and "decimals (TOKEN_CONFIG cfg) \<le> 22"
  shows "amt = fl (of_int (A * 10 ^ decimals (TOKEN_CONFIG cfg)))
         \<and> (\<forall>M k. \<bar>A * 10 ^ decimals (TOKEN_CONFIG cfg)\<bar> = M * 2 ^ k \<and> M < 2 ^ 53
                    \<and> \<bar>A * 10 ^ decimals (TOKEN_CONFIG cfg)\<bar> < 2 ^ 1024
                \<longrightarrow> amt = Fin (of_int (A * 10 ^ decimals (TOKEN_CONFIG cfg))))
         \<and> (\<bar>A * 10 ^ decimals (TOKEN_CONFIG cfg)\<bar> < 2 ^ 1023
                \<longrightarrow> (\<exists>r. amt = Fin r
                         \<and> \<bar>r - of_int (A * 10 ^ decimals (TOKEN_CONFIG cfg))\<bar> * 2 ^ 53
                             \<le> \<bar>of_int (A * 10 ^ decimals (TOKEN_CONFIG cfg))\<bar>))"
proof -
  let ?N = "A * 10 ^ decimals (TOKEN_CONFIG cfg)"
  have amt: "amt = mintAmount s (TOKEN_CONFIG cfg)"
    using assms(1) by (rule MintTo_built)
  have v: "amt = fl (of_int ?N)"
    using mintAmount_value [OF assms(2,3), of s] by (simp add: amt)
  have "amt = Fin (of_int ?N)"
    if "\<bar>?N\<bar> = M * 2 ^ k" and "M < 2 ^ 53" and "\<bar>?N\<bar> < 2 ^ 1024" for M k
    using mintAmount_exact [OF assms(2,3) that, of s] by (simp add: amt)
  moreover have "\<exists>r. amt = Fin r \<and> \<bar>r - of_int ?N\<bar> * 2 ^ 53 \<le> \<bar>of_int ?N\<bar>"
    if "\<bar>?N\<bar> < 2 ^ 1023"
    using fl_int_error [OF that] unfolding v .
  ultimately show ?thesis using v by blast
qed

theorem mint_amount_nearest_binary64_witness:
  "MintTo sample_mint (''ata:'' @ sample_sender) sample_sender (Fin 1000000000000) []
      TOKEN_PROGRAM_ID
     \<in> set (instructions (built (createTokenWithMetadata sample_sdk sample_config
                                   (KeyString sample_key))))
   \<and> initialSupply (TOKEN_CONFIG sample_config) = Fin (of_int 1000000)
   \<and> decimals (TOKEN_CONFIG sample_config) \<le> 22
   \<and> \<bar>1000000 * 10 ^ decimals (TOKEN_CONFIG sample_config)\<bar> = (1000000000000::int) * 2 ^ 0
   \<and> (1000000000000::int) < 2 ^ 53
   \<and> \<bar>(1000000::int) * 10 ^ decimals (TOKEN_CONFIG sample_config)\<bar> < 2 ^ 1024
   \<and> \<bar>(1000000::int) * 10 ^ decimals (TOKEN_CONFIG sample_config)\<bar> < 2 ^ 1023
   \<and> Fin 1000000000000 = fl (of_int (1000000 * 10 ^ decimals (TOKEN_CONFIG sample_config)))
   \<and> Fin 1000000000000 = Fin (of_int (1000000 * 10 ^ decimals (TOKEN_CONFIG sample_config)))
   \<and> (\<exists>r. Fin 1000000000000 = Fin r
         \<and> \<bar>r - of_int (1000000 * 10 ^ decimals (TOKEN_CONFIG sample_config))\<bar> * 2 ^ 53
             \<le> \<bar>of_int (1000000 * 10 ^ decimals (TOKEN_CONFIG sample_config))\<bar>)"
proof -
  have h1: "MintTo sample_mint (''ata:'' @ sample_sender) sample_sender (Fin 1000000000000) []
      TOKEN_PROGRAM_ID
     \<in> set (instructions (built (createTokenWithMetadata sample_sdk sample_config
                                   (KeyString sample_key))))"
    by (subst sample_config_TOKEN_CONFIG)
       (simp add: sample_run mintAmount_sample sample_mint_def sample_sender_def)
  have h2: "initialSupply (TOKEN_CONFIG sample_config) = Fin (of_int 1000000)"
    by (simp add: sample_config_def)
  have h3: "decimals (TOKEN_CONFIG sample_config) \<le> 22"
    by (simp add: sample_config_def)
  have h4: "\<bar>1000000 * 10 ^ decimals (TOKEN_CONFIG sample_config)\<bar>
              = (1000000000000::int) * 2 ^ 0"
    by (simp add: sample_config_def)
  have h5: "(1000000000000::int) < 2 ^ 53" by simp
  have h6: "\<bar>(1000000::int) * 10 ^ decimals (TOKEN_CONFIG sample_config)\<bar> < 2 ^ 1024"
    by (simp add: sample_config_def)
  have h7: "\<bar>(1000000::int) * 10 ^ decimals (TOKEN_CONFIG sample_config)\<bar> < 2 ^ 1023"
    by (simp add: sample_config_def)
  note th = mint_amount_nearest_binary64 [OF h1 h2 h3]
  from th have c1:
    "Fin 1000000000000 = fl (of_int (1000000 * 10 ^ decimals (TOKEN_CONFIG sample_config)))"
    by (rule conjunct1)
  from th [THEN conjunct2, THEN conjunct1, rule_format, of 1000000000000 0] h4 h5 h6 have c2:
    "Fin 1000000000000 = Fin (of_int (1000000 * 10 ^ decimals (TOKEN_CONFIG sample_config)))"
    by blast
  from th [THEN conjunct2, THEN conjunct2, rule_format, OF h7] have c3:
    "\<exists>r. Fin 1000000000000 = Fin r
         \<and> \<bar>r - of_int (1000000 * 10 ^ decimals (TOKEN_CONFIG sample_config))\<bar> * 2 ^ 53
             \<le> \<bar>of_int (1000000 * 10 ^ decimals (TOKEN_CONFIG sample_config))\<bar>" .
  from h1 h2 h3 h4 h5 h6 h7 c1 c2 c3 show ?thesis by blast
qed

section \<open>Transfers: properties\<close>








lemma transfer_prepare_instructions:
  assumes "transfer_prepare s cfg key rcpt mintStr = Inr (kp, rp, mp, src, dst, tx2, mi)"
  shows "instructions tx2 =
           (case getAccountInfo s src of
              Inr None \<Rightarrow> [CreateAssociatedTokenAccount (publicKey kp) src (publicKey kp) mp
                             TOKEN_PROGRAM_ID ASSOCIATED_TOKEN_PROGRAM_ID]
            | _ \<Rightarrow> [])
           @ (case getAccountInfo s dst of
                Inr None \<Rightarrow> [CreateAssociatedTokenAccount (publicKey kp) dst rp mp
                               TOKEN_PROGRAM_ID ASSOCIATED_TOKEN_PROGRAM_ID]
              | _ \<Rightarrow> [])"
  using assms
  by (auto simp: transfer_prepare_def create_if_absent_def build_def add_def new_Transaction_def
      split: sum.splits option.splits prod.splits)



text \<open>
  The amount in smallest units, written out: for a finite amount \<open>a\<close> and at most 22
  decimals \<open>d\<close>, the Number nearest to \<open>a \<times> 10\<^sup>d\<close>, rounded to the nearest integer, halves
  upwards; NaN and the infinities stay what they are. So an amount of exactly \<open>k / 10\<^sup>d\<close>
  tokens is \<open>k\<close> smallest units.
\<close>

lemma amountInSmallestUnits_value:
  assumes "mint_decimals mi \<le> 22"
  shows "amountInSmallestUnits s amount mi =
           (case amount of
              Fin a \<Rightarrow> (case fl (a * 10 ^ mint_decimals mi) of
                          Fin x \<Rightarrow> Fin (of_int \<lfloor>x + 1 / 2\<rfloor>)
                        | y \<Rightarrow> y)
            | y \<Rightarrow> y)"
proof (cases amount)
  case (Fin a)
  then show ?thesis
    by (cases "fl (a * 10 ^ mint_decimals mi)")
       (simp_all add: amountInSmallestUnits_def Math_pow10_exact [OF assms])
qed (simp_all add: amountInSmallestUnits_def Math_pow10_exact [OF assms])

lemma amountInSmallestUnits_whole:
  assumes "mint_decimals mi \<le> 22" and "\<bar>k\<bar> < 2 ^ 53"
  shows "amountInSmallestUnits s (Fin (of_int k / 10 ^ mint_decimals mi)) mi = Fin (of_int k)"
proof -
  have "\<bar>k\<bar> = \<bar>k\<bar> * 2 ^ 0" by simp
  moreover have "\<bar>k\<bar> < 2 ^ 1024"
    using assms(2) by (rule less_trans) simp
  ultimately have "fl (of_int k) = Fin (of_int k)"
    using assms(2) by (intro fl_int_binary64 [of k "\<bar>k\<bar>" 0])
  moreover have "\<lfloor>(of_int k :: rat) + 1 / 2\<rfloor> = k"
    by (rule floor_unique) simp_all
  ultimately show ?thesis
    by (simp add: amountInSmallestUnits_value [OF assms(1)])
qed

lemma sample_key_bytes: "length (Buffer_from_hex sample_key) = 64"
  by (simp add: sample_key_def is_digit_def digit_val_def)

lemma Number_0_005: "Number_0_005 = Fin (5764607523034235 / 1152921504606846976)"
  by (simp add: Number_0_005_def fl_eval)

lemma need_0_005:
  "amountInSmallestUnits s Number_0_005 \<lparr>mint_decimals = 6\<rparr> = Fin 5000"
  by (simp add: Number_0_005 amountInSmallestUnits_def Math_pow10_def fl_eval)


lemma parseInt_0: "parseInt ''0'' 10 = Fin 0"
  by (simp add: parseInt_def is_white_space_def is_line_terminator_def is_digit_def
      digit_val_def fl_def)

lemmas sample_defs = sample_sdk_def sample_config_def sample_recipient_def sample_mint_def
  sample_sender_def

lemmas transfer_defs = transfer_prepare_def transfer_accounts_def create_if_absent_def
  build_def add_def new_Transaction_def throws_def token_balance_def



lemma transfer_accounts_balance_update:
  "transfer_accounts (s\<lparr>getTokenAccountBalance := f\<rparr>) cfg key rcpt mintStr
     = transfer_accounts s cfg key rcpt mintStr"
  by (simp add: transfer_accounts_def cong: sum.case_cong option.case_cong)

lemma create_if_absent_balance_update:
  "create_if_absent (s\<lparr>getTokenAccountBalance := f\<rparr>) tx p a ow m
     = create_if_absent s tx p a ow m"
  by (simp add: create_if_absent_def build_def cong: sum.case_cong option.case_cong)

lemma transfer_prepare_balance_update:
  "transfer_prepare (s\<lparr>getTokenAccountBalance := f\<rparr>) cfg key rcpt mintStr
     = transfer_prepare s cfg key rcpt mintStr"
  by (simp add: transfer_prepare_def transfer_accounts_balance_update
      create_if_absent_balance_update cong: sum.case_cong option.case_cong prod.case_cong)

lemma Number_0_000001: "Number_0_000001 = Fin (4722366482869645 / 4722366482869645213696)"
  by (simp add: Number_0_000001_def fl_eval)

lemma need_0_000001:
  "amountInSmallestUnits s Number_0_000001 \<lparr>mint_decimals = 6\<rparr> = Fin 1"
  by (simp add: Number_0_000001 amountInSmallestUnits_def Math_pow10_def fl_eval)

lemma empty_account_prepare:
  "transfer_prepare empty_account_sdk sample_config sample_key sample_recipient sample_mint
     = Inr (\<lparr>publicKey = sample_sender, secretKey = Buffer_from_hex sample_key\<rparr>,
            sample_recipient, sample_mint, ''ata:'' @ sample_sender, ''ata:'' @ sample_recipient,
            new_Transaction, \<lparr>mint_decimals = 6\<rparr>)"
  by (simp add: empty_account_sdk_def transfer_defs sample_defs sample_key_bytes)

lemma token_balance_failed: "getTokenAccountBalance s a = Inl e \<Longrightarrow> token_balance s a = Fin 0"
  by (simp add: token_balance_def)

lemma token_balance_update:
  "getTokenAccountBalance s a = Inl e \<Longrightarrow>
   token_balance (s\<lparr>getTokenAccountBalance := (getTokenAccountBalance s)(a := Inr ''0'')\<rparr>) b
     = token_balance s b"
  by (simp add: token_balance_def parseInt_0)

lemma amountInSmallestUnits_balance_update:
  "amountInSmallestUnits (s\<lparr>getTokenAccountBalance := f\<rparr>) amount mi
     = amountInSmallestUnits s amount mi"
  by (simp add: amountInSmallestUnits_def Math_pow10_def)

lemma transferToken_balance_update:
  assumes "getTokenAccountBalance s a = Inl e"
  shows "transferToken (s\<lparr>getTokenAccountBalance := (getTokenAccountBalance s)(a := Inr ''0'')\<rparr>)
           cfg key rcpt mintStr amount
         = transferToken s cfg key rcpt mintStr amount"
  by (simp add: transferToken_def transfer_prepare_balance_update
      amountInSmallestUnits_balance_update token_balance_update [OF assms] build_def
      cong: sum.case_cong option.case_cong prod.case_cong if_cong)

lemma no_accounts_prepare:
  "transfer_prepare no_accounts_sdk sample_config sample_key sample_recipient sample_mint
     = Inr (\<lparr>publicKey = sample_sender, secretKey = Buffer_from_hex sample_key\<rparr>,
            sample_recipient, sample_mint, ''ata:'' @ sample_sender, ''ata:'' @ sample_recipient,
            \<lparr>instructions =
               [CreateAssociatedTokenAccount sample_sender (''ata:'' @ sample_sender)
                  sample_sender sample_mint TOKEN_PROGRAM_ID ASSOCIATED_TOKEN_PROGRAM_ID,
                CreateAssociatedTokenAccount sample_sender (''ata:'' @ sample_recipient)
                  sample_recipient sample_mint TOKEN_PROGRAM_ID ASSOCIATED_TOKEN_PROGRAM_ID],
              recentBlockhash = None, feePayer = None\<rparr>,
            \<lparr>mint_decimals = 6\<rparr>)"
  by (simp add: no_accounts_sdk_def transfer_defs sample_defs sample_key_bytes)

lemma Number_0_067: "Number_0_067 = Fin (1206964700135293 / 18014398509481984)"
  by (simp add: Number_0_067_def fl_eval)

lemma lamports_0_067:
  "js_mul Number_0_067 (Fin 1000000000) = Fin (8992587776000001 / 134217728)"
  by (simp add: Number_0_067 fl_eval)

lemma lamports_0_005: "js_mul Number_0_005 (Fin 1000000000) = Fin 5000000"
  by (simp add: Number_0_005 fl_eval)

lemma fl_1: "fl 1 = Fin 1"
  using fl_of_int [of 1] by simp

lemma transferSOL_single_transfer:
  "(tx, signers) \<in> set (submitted (transferSOL s cfg key rcpt amountSOL)) \<Longrightarrow>
   \<exists>(kp :: keypair) rp. instructions tx = [Transfer (publicKey kp) rp (js_mul amountSOL (Fin 1000000000))]"
  by (auto simp: transferSOL_def throws_def Let_def build_def add_def new_Transaction_def
      split: sum.splits option.splits if_splits)

lemma transferSOL_0_067_rejected:
  "result (transferSOL integer_lamports_sdk sample_config sample_key sample_recipient Number_0_067)
     = Inl (Thrown (RangeError ''The number cannot be converted to a BigInt because it is not an integer''))
   \<and> submitted (transferSOL integer_lamports_sdk sample_config sample_key sample_recipient
                   Number_0_067) = []
   \<and> instructions (built (transferSOL integer_lamports_sdk sample_config sample_key
                             sample_recipient Number_0_067)) = []"
proof -
  have "\<not> js_lt (Fin 1) Number_0_067"
    by (simp add: Number_0_067)
  then show ?thesis
    by (simp add: transferSOL_def integer_lamports_sdk_def sample_defs sample_key_bytes fl_1
        lamports_0_067 build_def add_def new_Transaction_def throws_def Let_def
        floor_rat_numeral ceiling_rat_numeral)
qed

lemma self_transfer_positive_amount:
  "instructions (built (transferToken no_accounts_sdk sample_config sample_key sample_sender
                          sample_mint Number_0_005))
     = [CreateAssociatedTokenAccount sample_sender (''ata:'' @ sample_sender) sample_sender
          sample_mint TOKEN_PROGRAM_ID ASSOCIATED_TOKEN_PROGRAM_ID,
        CreateAssociatedTokenAccount sample_sender (''ata:'' @ sample_sender) sample_sender
          sample_mint TOKEN_PROGRAM_ID ASSOCIATED_TOKEN_PROGRAM_ID]
   \<and> result (transferToken no_accounts_sdk sample_config sample_key sample_sender
                sample_mint Number_0_005)
       = Inl (InsufficientBalance (Fin 0) (Fin 5000))
   \<and> submitted (transferToken no_accounts_sdk sample_config sample_key sample_sender
                   sample_mint Number_0_005) = []"
  by (simp add: transferToken_def no_accounts_sdk_def transfer_defs sample_defs
      sample_key_bytes need_0_005 Let_def)

lemma floor_half: "\<lfloor>1 / 2 :: rat\<rfloor> = 0"
  by (rule floor_unique) simp_all

lemma need_zero: "amountInSmallestUnits s (Fin 0) \<lparr>mint_decimals = 6\<rparr> = Fin 0"
  by (simp add: amountInSmallestUnits_def Math_pow10_def fl_eval floor_half)

lemma transferToken_built_after_prepare:
  assumes "transfer_prepare s cfg key rcpt mintStr = Inr (kp, rp, mp, src, dst, tx2, mi)"
  shows "filter (creates a) (instructions (built (transferToken s cfg key rcpt mintStr amount)))
           = filter (creates a) (instructions tx2)"
  using assms
  by (auto simp: transferToken_def throws_def Let_def build_def add_def
      split: sum.splits option.splits)

lemma recipient_account_created_once:
  assumes "transfer_prepare s cfg key rcpt mintStr = Inr (kp, rp, mp, src, dst, tx2, mi)"
    and "src \<noteq> dst"
  shows "length (filter (creates dst)
                   (instructions (built (transferToken s cfg key rcpt mintStr amount))))
           = (case getAccountInfo s dst of Inr None \<Rightarrow> 1 | _ \<Rightarrow> 0)"
  using assms(2)
  by (simp add: transferToken_built_after_prepare [OF assms(1)]
      transfer_prepare_instructions [OF assms(1)] split: sum.splits option.splits)

lemma existing_recipient_account_not_created:
  assumes "transfer_prepare s cfg key rcpt mintStr = Inr (kp, rp, mp, src, dst, tx2, mi)"
    and "getAccountInfo s dst = Inr (Some info)"
  shows "filter (creates dst)
           (instructions (built (transferToken s cfg key rcpt mintStr amount))) = []"
  using assms(2)
  by (simp add: transferToken_built_after_prepare [OF assms(1)]
      transfer_prepare_instructions [OF assms(1)] split: sum.splits option.splits)





text \<open>
  Claim C5. When the run reaches the balance check, the balance at hand is 0 and the
  amount asked for is 1 smallest unit, \<^verbatim>\<open>transferToken\<close> fails with the
  insufficient-balance error and has not called \<^verbatim>\<open>sendAndConfirmTransaction\<close>.
\<close>

theorem empty_balance_fails_before_submission:
  assumes "transfer_prepare s cfg key rcpt mintStr = Inr (kp, rp, mp, src, dst, tx2, mi)"
    and "token_balance s src = Fin 0"
    and "amountInSmallestUnits s amount mi = Fin 1"
  shows "result (transferToken s cfg key rcpt mintStr amount)
           = Inl (InsufficientBalance (Fin 0) (Fin 1))
         \<and> submitted (transferToken s cfg key rcpt mintStr amount) = []"
  using assms by (simp add: transferToken_def throws_def Let_def)

theorem empty_balance_fails_before_submission_witness:
  "transfer_prepare empty_account_sdk sample_config sample_key sample_recipient sample_mint
     = Inr (\<lparr>publicKey = sample_sender, secretKey = Buffer_from_hex sample_key\<rparr>,
            sample_recipient, sample_mint, ''ata:'' @ sample_sender, ''ata:'' @ sample_recipient,
            new_Transaction, \<lparr>mint_decimals = 6\<rparr>)
   \<and> token_balance empty_account_sdk (''ata:'' @ sample_sender) = Fin 0
   \<and> amountInSmallestUnits empty_account_sdk Number_0_000001 \<lparr>mint_decimals = 6\<rparr> = Fin 1
   \<and> result (transferToken empty_account_sdk sample_config sample_key sample_recipient
                sample_mint Number_0_000001)
        = Inl (InsufficientBalance (Fin 0) (Fin 1))
   \<and> submitted (transferToken empty_account_sdk sample_config sample_key sample_recipient
                   sample_mint Number_0_000001) = []"
proof -
  have h2: "token_balance empty_account_sdk (''ata:'' @ sample_sender) = Fin 0"
    by (simp add: token_balance_def empty_account_sdk_def sample_sdk_def parseInt_0)
  from empty_balance_fails_before_submission [OF empty_account_prepare h2 need_0_000001]
    empty_account_prepare h2 need_0_000001
  show ?thesis by blast
qed


text \<open>
  Claim C9. When the balance query for the sender's token account throws, the run is
  the run on a network that answers \<^verbatim>\<open>"0"\<close> for that account, result, transaction
  and submissions alike; so it fails with the insufficient-balance error, and not with
  the error the query threw, exactly when the amount asked for is positive, and then
  nothing is submitted.
\<close>

theorem failed_lookup_is_zero_balance:
  assumes "transfer_prepare s cfg key rcpt mintStr = Inr (kp, rp, mp, src, dst, tx2, mi)"
    and "getTokenAccountBalance s src = Inl e"
  shows "transferToken s cfg key rcpt mintStr amount
           = transferToken
               (s\<lparr>getTokenAccountBalance := (getTokenAccountBalance s)(src := Inr ''0'')\<rparr>)
               cfg key rcpt mintStr amount
         \<and> (if js_lt (Fin 0) (amountInSmallestUnits s amount mi)
             then result (transferToken s cfg key rcpt mintStr amount)
                    = Inl (InsufficientBalance (Fin 0) (amountInSmallestUnits s amount mi))
                  \<and> submitted (transferToken s cfg key rcpt mintStr amount) = []
             else result (transferToken s cfg key rcpt mintStr amount)
                    \<noteq> Inl (InsufficientBalance (Fin 0) (amountInSmallestUnits s amount mi)))"
proof -
  have b: "token_balance s src = Fin 0"
    using assms(2) by (rule token_balance_failed)
  have "js_lt (Fin 0) (amountInSmallestUnits s amount mi) \<Longrightarrow>
        result (transferToken s cfg key rcpt mintStr amount)
          = Inl (InsufficientBalance (Fin 0) (amountInSmallestUnits s amount mi))
        \<and> submitted (transferToken s cfg key rcpt mintStr amount) = []"
    using assms(1) b by (simp add: transferToken_def throws_def Let_def)
  moreover have "\<not> js_lt (Fin 0) (amountInSmallestUnits s amount mi) \<Longrightarrow>
        result (transferToken s cfg key rcpt mintStr amount)
          \<noteq> Inl (InsufficientBalance (Fin 0) (amountInSmallestUnits s amount mi))"
    using assms(1) b
    by (simp add: transferToken_def throws_def Let_def split: sum.splits)
  ultimately show ?thesis
    using transferToken_balance_update [OF assms(2), of cfg key rcpt mintStr amount]
    by simp
qed

theorem failed_lookup_is_zero_balance_witness:
  "getTokenAccountBalance no_accounts_sdk (''ata:'' @ sample_sender)
     = Inl (SdkError ''could not find account'')
   \<and> js_lt (Fin 0) (amountInSmallestUnits no_accounts_sdk Number_0_005 \<lparr>mint_decimals = 6\<rparr>)
   \<and> transferToken no_accounts_sdk sample_config sample_key sample_recipient sample_mint
         Number_0_005
       = transferToken
           (no_accounts_sdk\<lparr>getTokenAccountBalance :=
               (getTokenAccountBalance no_accounts_sdk)(''ata:'' @ sample_sender := Inr ''0'')\<rparr>)
           sample_config sample_key sample_recipient sample_mint Number_0_005
   \<and> result (transferToken no_accounts_sdk sample_config sample_key sample_recipient
                sample_mint Number_0_005)
        = Inl (InsufficientBalance (Fin 0) (Fin 5000))
   \<and> submitted (transferToken no_accounts_sdk sample_config sample_key sample_recipient
                   sample_mint Number_0_005) = []"
proof -
  have h2: "getTokenAccountBalance no_accounts_sdk (''ata:'' @ sample_sender)
              = Inl (SdkError ''could not find account'')"
    by (simp add: no_accounts_sdk_def)
  have h3: "js_lt (Fin 0) (amountInSmallestUnits no_accounts_sdk Number_0_005 \<lparr>mint_decimals = 6\<rparr>)"
    by (simp add: need_0_005)
  note th = failed_lookup_is_zero_balance [OF no_accounts_prepare h2, of Number_0_005]
  from th have a: "transferToken no_accounts_sdk sample_config sample_key sample_recipient
         sample_mint Number_0_005
       = transferToken
           (no_accounts_sdk\<lparr>getTokenAccountBalance :=
               (getTokenAccountBalance no_accounts_sdk)(''ata:'' @ sample_sender := Inr ''0'')\<rparr>)
           sample_config sample_key sample_recipient sample_mint Number_0_005"
    by (rule conjunct1)
  from th [THEN conjunct2] h3
  have b: "result (transferToken no_accounts_sdk sample_config sample_key sample_recipient
                sample_mint Number_0_005)
        = Inl (InsufficientBalance (Fin 0) (Fin 5000))
   \<and> submitted (transferToken no_accounts_sdk sample_config sample_key sample_recipient
                   sample_mint Number_0_005) = []"
    by (simp add: need_0_005)
  from h2 h3 a b show ?thesis by blast
qed




text \<open>
  Claim C7, as it fails on the code. \<^verbatim>\<open>transferSOL\<close> passes the product
  \<^verbatim>\<open>amountSOL * 1000000000\<close> to the transfer instruction as it is, without rounding
  it to a whole number of lamports. For 0.067 coin on the sample network the submitted
  transaction is the single transfer instruction, and its amount is
  \<open>67000000 + 2\<^sup>-\<^sup>2\<^sup>7\<close> (printed 67000000.00000001), not 67,000,000. With a builder that
  refuses a Number that is not an integer, the same call throws and no transfer is built
  at all (\<open>transferSOL_0_067_rejected\<close>). (That a submitted transaction is one transfer
  instruction carrying that product, and that 0.005 coin gives exactly 5,000,000, are
  \<open>transferSOL_single_transfer\<close> and \<open>lamports_0_005\<close>.)
\<close>

theorem transferSOL_0_067_lamports_not_integer:
  "submitted (transferSOL sample_sdk sample_config sample_key sample_recipient Number_0_067)
     = [(\<lparr>instructions =
             [Transfer sample_sender sample_recipient (Fin (8992587776000001 / 134217728))],
           recentBlockhash = Some ''blockhash'', feePayer = Some sample_sender\<rparr>,
         [\<lparr>publicKey = sample_sender, secretKey = Buffer_from_hex sample_key\<rparr>])]
   \<and> (8992587776000001 / 134217728 :: rat) = 67000000 + 1 / 134217728"
proof -
  have "\<not> js_lt (Fin 1) Number_0_067"
    by (simp add: Number_0_067)
  then show ?thesis
    by (simp add: transferSOL_def sample_defs sample_key_bytes fl_1
        lamports_0_067 build_def add_def new_Transaction_def throws_def Let_def)
qed

text \<open>
  Claim C4, as it fails on the code. When the recipient is the sender and the token
  account does not exist, both conditional blocks add a creation instruction for the same
  account: the transaction holds two of them, and for an amount of 0 it is submitted so
  (for a positive amount it holds them when the balance check throws:
  \<open>self_transfer_positive_amount\<close>).
  (For a recipient account other than the sender's, the count is one when the account is
  absent and none when it is present: \<open>recipient_account_created_once\<close>,
  \<open>existing_recipient_account_not_created\<close>.)
\<close>

theorem self_transfer_creates_account_twice:
  "getAccountInfo no_accounts_sdk (''ata:'' @ sample_sender) = Inr None
   \<and> instructions (built (transferToken no_accounts_sdk sample_config sample_key sample_sender
                             sample_mint (Fin 0)))
     = [CreateAssociatedTokenAccount sample_sender (''ata:'' @ sample_sender) sample_sender
          sample_mint TOKEN_PROGRAM_ID ASSOCIATED_TOKEN_PROGRAM_ID,
        CreateAssociatedTokenAccount sample_sender (''ata:'' @ sample_sender) sample_sender
          sample_mint TOKEN_PROGRAM_ID ASSOCIATED_TOKEN_PROGRAM_ID,
        TransferChecked (''ata:'' @ sample_sender) sample_mint (''ata:'' @ sample_sender)
          sample_sender (Fin 0) 6 [] TOKEN_PROGRAM_ID]
   \<and> length (filter (creates (''ata:'' @ sample_sender))
               (instructions (built (transferToken no_accounts_sdk sample_config sample_key
                                       sample_sender sample_mint (Fin 0))))) = 2
   \<and> length (submitted (transferToken no_accounts_sdk sample_config sample_key sample_sender
                           sample_mint (Fin 0))) = 1"
  by (simp add: transferToken_def no_accounts_sdk_def transfer_defs sample_defs
      sample_key_bytes need_zero Let_def)


section \<open>Key material: properties\<close>

lemma hex_digit_lower:
  assumes "is_digit 16 c"
  shows "\<exists>v. digit_val c = Some v \<and> v < 16 \<and> hex_digit v = lower c"
proof -
  define n where "n = (of_char c :: nat)"
  have c: "char_of n = c" by (simp add: n_def)
  have l: "lower c = (if 65 \<le> n \<and> n \<le> 90 then char_of (n + 32) else c)"
    by (simp add: lower_def n_def Let_def)
  from assms consider
      "48 \<le> n" "n \<le> 57" "digit_val c = Some (n - 48)"
    | "97 \<le> n" "n \<le> 102" "digit_val c = Some (n - 87)"
    | "65 \<le> n" "n \<le> 70" "digit_val c = Some (n - 55)"
    by (auto simp: is_digit_def digit_val_def n_def Let_def split: if_splits)
  then show ?thesis
  proof cases
    case 1
    then have "n - 48 < 10" "48 + (n - 48) = n" "\<not> (65 \<le> n \<and> n \<le> 90)" by arith+
    then have "hex_digit (n - 48) = c" "lower c = c"
      by (simp_all only: hex_digit_def l c if_True if_False)
    with 1 show ?thesis by simp
  next
    case 2
    then have "\<not> n - 87 < 10" "87 + (n - 87) = n" "\<not> (65 \<le> n \<and> n \<le> 90)" by arith+
    then have "hex_digit (n - 87) = c" "lower c = c"
      by (simp_all only: hex_digit_def l c if_True if_False)
    with 2 show ?thesis by simp
  next
    case 3
    then have "\<not> n - 55 < 10" "87 + (n - 55) = n + 32" "65 \<le> n \<and> n \<le> 90" by arith+
    then have "hex_digit (n - 55) = char_of (n + 32)" "lower c = char_of (n + 32)"
      by (simp_all only: hex_digit_def l if_True if_False simp_thms)
    with 3 show ?thesis by simp
  qed
qed

lemma byte_of_two_digits:
  assumes "v1 < 16" "v2 < 16"
  shows "unat (of_nat (v1 * 16 + v2) :: byte) div 16 = v1"
    and "unat (of_nat (v1 * 16 + v2) :: byte) mod 16 = v2"
proof -
  have "v1 * 16 + v2 < 256" using assms by simp
  then have "(v1 * 16 + v2) mod 2 ^ LENGTH(8) = v1 * 16 + v2" by simp
  then have u: "unat (of_nat (v1 * 16 + v2) :: byte) = v1 * 16 + v2"
    by (simp only: unat_of_nat)
  show "unat (of_nat (v1 * 16 + v2) :: byte) div 16 = v1"
    and "unat (of_nat (v1 * 16 + v2) :: byte) mod 16 = v2"
    unfolding u using assms by simp_all
qed

lemma toString_hex_Cons:
  "toString_hex (b # bs) = hex_digit (unat b div 16) # hex_digit (unat b mod 16) # toString_hex bs"
  by (simp add: toString_hex_def)

lemma two_digits_value:
  "digit_val a = Some v1 \<Longrightarrow> digit_val b = Some v2 \<Longrightarrow> digits_value 16 0 [a, b] = v1 * 16 + v2"
  by simp

lemma Buffer_from_hex_Cons:
  "is_digit 16 a \<Longrightarrow> is_digit 16 b \<Longrightarrow>
   Buffer_from_hex (a # b # cs) = of_nat (digits_value 16 0 [a, b]) # Buffer_from_hex cs"
  by (simp del: digits_value.simps)

lemma hex_round_trip:
  "is_hex_string x \<Longrightarrow> even (length x) \<Longrightarrow> toString_hex (Buffer_from_hex x) = map lower x"
proof (induction x rule: Buffer_from_hex.induct)
  case (1 a b cs)
  from 1(2) have a: "is_digit 16 a" and b: "is_digit 16 b" and cs: "is_hex_string cs"
    by (simp_all add: is_hex_string_def)
  from hex_digit_lower [OF a] obtain v1 where
    v1: "digit_val a = Some v1" "v1 < 16" "hex_digit v1 = lower a" by blast
  from hex_digit_lower [OF b] obtain v2 where
    v2: "digit_val b = Some v2" "v2 < 16" "hex_digit v2 = lower b" by blast
  have ih: "toString_hex (Buffer_from_hex cs) = map lower cs"
    using 1 a b cs by simp
  have "toString_hex (Buffer_from_hex (a # b # cs))
          = hex_digit v1 # hex_digit v2 # toString_hex (Buffer_from_hex cs)"
    by (simp only: Buffer_from_hex_Cons [OF a b] two_digits_value [OF v1(1) v2(1)]
        toString_hex_Cons byte_of_two_digits [OF v1(2) v2(2)])
  then show ?case
    by (simp only: v1(3) v2(3) ih list.map)
qed (simp_all add: toString_hex_def)

lemma hex_not_special:
  assumes "is_digit 16 c"
  shows "\<not> is_white_space c" "\<not> is_line_terminator c" "c \<noteq> CHR ''-''" "c \<noteq> CHR ''+''"
    "c \<noteq> CHR ''x''" "c \<noteq> CHR ''X''"
  using assms
  by (auto simp: is_digit_def digit_val_def is_white_space_def is_line_terminator_def Let_def
      split: if_splits)

lemma parseInt_two_hex:
  assumes a: "is_digit 16 a" and b: "is_digit 16 b"
  shows "ToUint8 (parseInt [a, b] 16) = of_nat (digits_value 16 0 [a, b])"
proof -
  let ?n = "digits_value 16 0 [a, b]"
  from hex_digit_lower [OF a] obtain v1 where v1: "digit_val a = Some v1" "v1 < 16" by blast
  from hex_digit_lower [OF b] obtain v2 where v2: "digit_val b = Some v2" "v2 < 16" by blast
  have n: "?n = v1 * 16 + v2" using v1(1) v2(1) by (rule two_digits_value)
  have "int ?n < 2 ^ 53" unfolding n using v1(2) v2(2) by simp
  then have "fl (of_int (int ?n)) = Fin (of_int (int ?n))"
    by (intro fl_of_int) simp_all
  then have f: "fl (of_nat ?n) = Fin (of_nat ?n)" by simp
  have "parseInt [a, b] 16 = fl (of_nat ?n)"
    using a b hex_not_special [OF a] hex_not_special [OF b]
    by (simp add: parseInt_def strip_0x_def Let_def)
  then show ?thesis
    by (simp only: f ToUint8.simps) simp
qed

lemma match_pairs_hex:
  "is_hex_string x \<Longrightarrow> even (length x) \<Longrightarrow>
   map (\<lambda>byte. ToUint8 (parseInt byte 16)) (match_pairs x) = Buffer_from_hex x"
proof (induction x rule: Buffer_from_hex.induct)
  case (1 a b cs)
  from 1(2) have a: "is_digit 16 a" and b: "is_digit 16 b" and cs: "is_hex_string cs"
    by (simp_all add: is_hex_string_def)
  have "map (\<lambda>byte. ToUint8 (parseInt byte 16)) (match_pairs cs) = Buffer_from_hex cs"
    using 1 a b cs by simp
  then show ?case
    using a b hex_not_special(2) [OF a] hex_not_special(2) [OF b]
    by (simp add: parseInt_two_hex [OF a b] del: digits_value.simps)
qed simp_all

lemma secretKey_of_hex:
  assumes "is_hex_string x" "even (length x)" "x \<noteq> []"
  shows "secretKey_of (KeyString x) = Inr (Buffer_from_hex x)"
proof -
  from assms obtain a b cs where x: "x = a # b # cs"
    by (cases x rule: Buffer_from_hex.cases) auto
  with assms(1) have "\<not> is_line_terminator a" "\<not> is_line_terminator b"
    by (simp_all add: is_hex_string_def hex_not_special)
  then have "match_pairs x \<noteq> []" by (simp add: x)
  then have "match_1_2 x = Some (match_pairs x)"
    by (cases "match_pairs x") (simp_all add: match_1_2_def)
  then show ?thesis
    using match_pairs_hex [OF assms(1,2)] by (simp add: secretKey_of_def)
qed


lemma digit_val_lower:
  assumes "is_digit 16 c"
  shows "digit_val (lower c) = digit_val c"
proof -
  define n where "n = (of_char c :: nat)"
  have l: "lower c = (if 65 \<le> n \<and> n \<le> 90 then char_of (n + 32) else c)"
    by (simp add: lower_def n_def Let_def)
  show ?thesis
  proof (cases "65 \<le> n \<and> n \<le> 90")
    case False
    then have "lower c = c" unfolding l by (rule if_not_P)
    then show ?thesis by simp
  next
    case True
    with assms have "n \<le> 70"
      by (auto simp: is_digit_def digit_val_def n_def Let_def split: if_splits)
    with True have "(of_char (char_of (n + 32)) :: nat) = n + 32"
      by simp
    with True \<open>n \<le> 70\<close> have "digit_val (char_of (n + 32)) = Some (n - 55)"
      by (simp add: digit_val_def Let_def)
    moreover from True have "digit_val c = Some (n - 55)"
      by (simp add: digit_val_def n_def [symmetric] Let_def)
    ultimately show ?thesis using True by (simp add: l)
  qed
qed

lemma is_digit_lower: "is_digit 16 c \<Longrightarrow> is_digit 16 (lower c)"
  by (simp add: is_digit_def digit_val_lower)

lemma is_hex_string_lower: "is_hex_string x \<Longrightarrow> is_hex_string (map lower x)"
  by (simp add: is_hex_string_def list_all_iff is_digit_lower)

lemma Buffer_from_hex_lower:
  "is_hex_string x \<Longrightarrow> Buffer_from_hex (map lower x) = Buffer_from_hex x"
proof (induction x rule: Buffer_from_hex.induct)
  case (1 a b cs)
  from 1(2) have a: "is_digit 16 a" and b: "is_digit 16 b" and cs: "is_hex_string cs"
    by (simp_all add: is_hex_string_def)
  have ih: "Buffer_from_hex (map lower cs) = Buffer_from_hex cs"
    using 1 a b cs by simp
  from hex_digit_lower [OF a] obtain v1 where v1: "digit_val a = Some v1" by blast
  from hex_digit_lower [OF b] obtain v2 where v2: "digit_val b = Some v2" by blast
  have "digits_value 16 0 [lower a, lower b] = v1 * 16 + v2"
    by (rule two_digits_value) (simp_all only: digit_val_lower [OF a] digit_val_lower [OF b] v1 v2)
  then have d: "digits_value 16 0 [lower a, lower b] = digits_value 16 0 [a, b]"
    by (simp only: two_digits_value [OF v1 v2])
  have "Buffer_from_hex (lower a # lower b # map lower cs)
          = of_nat (digits_value 16 0 [lower a, lower b]) # Buffer_from_hex (map lower cs)"
    using a b by (intro Buffer_from_hex_Cons is_digit_lower)
  then show ?case
    by (simp only: list.map d ih Buffer_from_hex_Cons [OF a b])
qed simp_all

lemma sample_key_hex: "is_hex_string sample_key"
  by (simp add: is_hex_string_def sample_key_def is_digit_def digit_val_def)

lemma upper_key_hex: "is_hex_string upper_key"
  by (simp add: is_hex_string_def upper_key_def is_digit_def digit_val_def)

lemma sample_key_lower: "map lower sample_key = sample_key"
  by (simp add: sample_key_def lower_def)

lemma upper_key_lower: "map lower upper_key = sample_key"
  by (simp add: sample_key_def upper_key_def lower_def char_of_eq_iff)

text \<open>
  Decoding what \<^verbatim>\<open>toString('hex')\<close> wrote gives the bytes back, whatever they are: the
  private key returned by \<^verbatim>\<open>createWalletKeypair\<close> loads back as the secret key it
  was made from.
\<close>

lemma digit_val_hex_digit:
  assumes "v < 16"
  shows "digit_val (hex_digit v) = Some v"
proof (cases "v < 10")
  case True
  then have "(of_char (char_of (48 + v)) :: nat) = 48 + v" by simp
  with True show ?thesis by (simp add: hex_digit_def digit_val_def Let_def)
next
  case False
  with assms have "(of_char (char_of (87 + v)) :: nat) = 87 + v" by simp
  with False assms show ?thesis by (simp add: hex_digit_def digit_val_def Let_def)
qed

lemma is_digit_hex_digit: "v < 16 \<Longrightarrow> is_digit 16 (hex_digit v)"
  by (simp add: is_digit_def digit_val_hex_digit)

lemma Buffer_from_hex_toString_hex: "Buffer_from_hex (toString_hex bs) = bs"
proof (induction bs)
  case Nil
  then show ?case by (simp add: toString_hex_def)
next
  case (Cons b bs)
  let ?h = "hex_digit (unat b div 16)" and ?l = "hex_digit (unat b mod 16)"
  have "unat b < 256" using unsigned_less [of b, where ?'a = nat] by simp
  then have hi: "unat b div 16 < 16" and lo: "unat b mod 16 < 16" by simp_all
  have "digits_value 16 0 [?h, ?l] = unat b div 16 * 16 + unat b mod 16"
    by (rule two_digits_value) (simp_all only: digit_val_hex_digit hi lo)
  then have "digits_value 16 0 [?h, ?l] = unat b" by simp
  then have "(of_nat (digits_value 16 0 [?h, ?l]) :: byte) = b" by simp
  moreover have "Buffer_from_hex (?h # ?l # toString_hex bs)
          = of_nat (digits_value 16 0 [?h, ?l]) # Buffer_from_hex (toString_hex bs)"
    by (intro Buffer_from_hex_Cons is_digit_hex_digit hi lo)
  ultimately show ?case
    by (simp only: toString_hex_Cons Cons.IH)
qed

lemma createWalletKeypair_loads_back:
  "Buffer_from_hex (snd (createWalletKeypair s)) = secretKey (generate s)"
  by (simp add: createWalletKeypair_def Let_def Buffer_from_hex_toString_hex)

text \<open>
  Claim C8, as stated, fails: \<^verbatim>\<open>toString('hex')\<close> writes lower-case digits, while both
  decoders read either case. The sample key written in upper case is a string of
  hexadecimal digits of even length, decodes to the very bytes of the sample key, and is
  re-encoded as the sample key, not as itself.
\<close>

theorem upper_case_key_round_trip_counterexample:
  "is_hex_string upper_key \<and> even (length upper_key)
   \<and> Buffer_from_hex upper_key = Buffer_from_hex sample_key
   \<and> secretKey_of (KeyString upper_key) = secretKey_of (KeyString sample_key)
   \<and> fromSecretKey sample_sdk (Buffer_from_hex upper_key)
       = Inr \<lparr>publicKey = sample_sender, secretKey = Buffer_from_hex sample_key\<rparr>
   \<and> toString_hex (Buffer_from_hex upper_key) = sample_key
   \<and> toString_hex (Buffer_from_hex upper_key) \<noteq> upper_key"
proof -
  have e: "even (length upper_key)" "upper_key \<noteq> []" "even (length sample_key)" "sample_key \<noteq> []"
    by (simp_all add: upper_key_def sample_key_def)
  have b: "Buffer_from_hex upper_key = Buffer_from_hex sample_key"
    using Buffer_from_hex_lower [OF upper_key_hex] by (simp add: upper_key_lower)
  have r: "toString_hex (Buffer_from_hex upper_key) = sample_key"
    using hex_round_trip [OF upper_key_hex e(1)] by (simp add: upper_key_lower)
  have k: "secretKey_of (KeyString upper_key) = secretKey_of (KeyString sample_key)"
    by (simp add: secretKey_of_hex upper_key_hex sample_key_hex e b)
  have n: "sample_key \<noteq> upper_key"
    by (simp add: sample_key_def upper_key_def)
  have a: "fromSecretKey sample_sdk (Buffer_from_hex upper_key)
       = Inr \<lparr>publicKey = sample_sender, secretKey = Buffer_from_hex sample_key\<rparr>"
    by (simp add: b sample_defs sample_key_bytes)
  from upper_key_hex e(1) b k a r n show ?thesis by simp
qed

text \<open>
  Claim C8, amended. For a non-empty string of hexadecimal digits of even length, the
  decoder of the token script and \<^verbatim>\<open>Buffer.from(x, 'hex')\<close> of the wallet script give
  the same bytes; re-encoding them gives the string with its letters in lower case;
  decoding that again gives the same bytes, and so the same answer of
  \<^verbatim>\<open>Keypair.fromSecretKey\<close>, key pair or rejection.
\<close>

theorem hex_key_round_trip_lower_case:
  assumes "is_hex_string x" and "even (length x)" and "x \<noteq> []"
  shows "secretKey_of (KeyString x) = Inr (Buffer_from_hex x)
         \<and> toString_hex (Buffer_from_hex x) = map lower x
         \<and> Buffer_from_hex (toString_hex (Buffer_from_hex x)) = Buffer_from_hex x
         \<and> secretKey_of (KeyString (toString_hex (Buffer_from_hex x))) = Inr (Buffer_from_hex x)
         \<and> fromSecretKey s (Buffer_from_hex (toString_hex (Buffer_from_hex x)))
             = fromSecretKey s (Buffer_from_hex x)"
proof -
  have r: "toString_hex (Buffer_from_hex x) = map lower x"
    using assms(1,2) by (rule hex_round_trip)
  have b: "Buffer_from_hex (map lower x) = Buffer_from_hex x"
    using assms(1) by (rule Buffer_from_hex_lower)
  have "secretKey_of (KeyString (map lower x)) = Inr (Buffer_from_hex (map lower x))"
    using assms by (intro secretKey_of_hex is_hex_string_lower) simp_all
  then show ?thesis
    using secretKey_of_hex [OF assms] by (simp add: r b)
qed

theorem hex_key_round_trip_lower_case_witness:
  "is_hex_string sample_key \<and> even (length sample_key) \<and> sample_key \<noteq> []
   \<and> secretKey_of (KeyString sample_key) = Inr (Buffer_from_hex sample_key)
   \<and> toString_hex (Buffer_from_hex sample_key) = sample_key
   \<and> secretKey_of (KeyString (toString_hex (Buffer_from_hex sample_key)))
       = Inr (Buffer_from_hex sample_key)"
proof -
  have h2: "even (length sample_key)" by (simp add: sample_key_def)
  have h3: "sample_key \<noteq> []" by (simp add: sample_key_def)
  from hex_key_round_trip_lower_case [OF sample_key_hex h2 h3, of sample_sdk]
    sample_key_hex h2 h3
  show ?thesis by (simp add: sample_key_lower)
qed


end
